theory Spec2Isabelle
  imports Complex_Main
begin

section \<open>Data model\<close>

text \<open>
  The task tools of the repository (\<open>verifyTask\<close>, \<open>updateTaskContent\<close>, \<open>queryTask\<close>,
  \<open>splitTasks\<close>, \<open>splitTasksRaw\<close>) are asynchronous TypeScript functions that read and
  write one persisted task collection through the functions of \<open>models/taskModel\<close>.
  The embedding passes the persisted state explicitly as a \<open>World\<close>; every tool takes
  the world and returns its response together with the new world.

  JavaScript numbers that a schema restricts with \<open>.int()\<close> are modelled as \<open>int\<close>;
  the verification score, which may be fractional, is a \<open>rat\<close>. An optional field is
  an \<open>option\<close>, with \<open>None\<close> for \<open>undefined\<close>. The update modes \<open>append\<close>,
  \<open>overwrite\<close>, \<open>selective\<close> and \<open>clearAllTasks\<close> are the constructors \<open>Append\<close>,
  \<open>Overwrite\<close>, \<open>Selective\<close> and \<open>ClearAllTasks\<close>.
\<close>

datatype TaskStatus = PENDING | IN_PROGRESS | COMPLETED

datatype RelatedFileType = TO_MODIFY | REFERENCE | CREATE | DEPENDENCY | OTHER

record RelatedFile =
  path :: string
  file_type :: RelatedFileType
  file_description :: "string option"
  lineStart :: "int option"
  lineEnd :: "int option"

record Task =
  task_id :: string
  name :: string
  description :: string
  task_notes :: "string option"
  implementationGuide :: "string option"
  verificationCriteria :: "string option"
  dependencies :: "string list"
  relatedFiles :: "RelatedFile list"
  status :: TaskStatus
  summary :: "string option"
  createdAt :: nat
  updatedAt :: nat

text \<open>One element of the \<open>tasks\<close> array accepted by \<open>splitTasks\<close>.\<close>

record TaskSpec =
  sp_name :: string
  sp_description :: string
  sp_implementationGuide :: string
  sp_dependencies :: "string list option"
  sp_notes :: "string option"
  sp_relatedFiles :: "RelatedFile list option"
  sp_verificationCriteria :: "string option"

datatype UpdateMode = Append | Overwrite | Selective | ClearAllTasks

text \<open>
  The calls a tool makes into \<open>models/taskModel\<close> are recorded, in order, in the
  world: a tool that returns before it reads or writes the store leaves the record as it
  was. Besides the task collection and the backups, the world holds what the
  environment decides: whether the backup medium can be written, the time, and the
  counter from which new identifiers are drawn. Reading and writing the task
  collection itself always succeed.
\<close>

datatype Call =
    GetTaskById string
  | UpdateTaskSummary string string
  | UpdateTaskStatus string TaskStatus
  | ModelUpdateTaskContent string
  | SearchTasksWithCommand string bool int int
  | GetAllTasks
  | ModelClearAllTasks
  | BatchCreateOrUpdateTasks "TaskSpec list" UpdateMode

record World =
  tasks :: "Task list"
  backups :: "(nat \<times> Task list) list"
  backupWritable :: bool
  clock :: nat
  nextId :: nat
  calls :: "Call list"

section \<open>TaskStore\<close>

text \<open>
  Modelled from the spec: \<open>getTaskById\<close> of \<open>models/taskModel\<close> (section 4.1,
  \<open>getById(id) -> Task or NotFound\<close>). The first task of the ordered collection that
  carries the id is the task; no task is \<open>None\<close>.
\<close>

definition findTask :: "string \<Rightarrow> Task list \<Rightarrow> Task option" where
  "findTask i ts = find (\<lambda>t. task_id t = i) ts"

definition getTaskById :: "string \<Rightarrow> World \<Rightarrow> Task option \<times> World" where
  "getTaskById i w = (findTask i (tasks w), w\<lparr>calls := calls w @ [GetTaskById i]\<rparr>)"

text \<open>
  Modelled from the spec: the single-task writes of \<open>models/taskModel\<close>. A write is one
  load, compute, save transaction (section 4.1) that replaces the task carrying the id
  and stamps \<open>updatedAt\<close>; an unknown id changes no task.
\<close>

fun updateTask :: "string \<Rightarrow> (Task \<Rightarrow> Task) \<Rightarrow> Task list \<Rightarrow> Task list" where
  "updateTask i f [] = []"
| "updateTask i f (t # ts) = (if task_id t = i then f t # ts else t # updateTask i f ts)"

definition updateTaskSummary :: "string \<Rightarrow> string \<Rightarrow> World \<Rightarrow> World" where
  "updateTaskSummary i s w =
     w\<lparr>tasks := updateTask i (\<lambda>t. t\<lparr>summary := Some s, updatedAt := clock w\<rparr>) (tasks w),
       clock := Suc (clock w),
       calls := calls w @ [UpdateTaskSummary i s]\<rparr>"

definition updateTaskStatus :: "string \<Rightarrow> TaskStatus \<Rightarrow> World \<Rightarrow> World" where
  "updateTaskStatus i st w =
     w\<lparr>tasks := updateTask i (\<lambda>t. t\<lparr>status := st, updatedAt := clock w\<rparr>) (tasks w),
       clock := Suc (clock w),
       calls := calls w @ [UpdateTaskStatus i st]\<rparr>"

section \<open>verifyTask\<close>

text \<open>
  What a tool hands to its prompt generator, or the fixed text it returns, is the
  \<open>content\<close> of the response; \<open>isError\<close> is the flag of the returned object, \<open>False\<close>
  where the object has no such key.
\<close>

datatype VerifyContent =
    VerifyNotFound string
  | VerifyStateError string string TaskStatus
  | VerifyPrompt Task rat string

record VerifyResponse =
  v_content :: VerifyContent
  v_isError :: bool

definition verifyTask :: "string \<Rightarrow> string \<Rightarrow> rat \<Rightarrow> World \<Rightarrow> VerifyResponse \<times> World" where
  "verifyTask taskId summ score w =
     (case getTaskById taskId w of
        (None, w1) \<Rightarrow>
          (\<lparr>v_content = VerifyNotFound taskId, v_isError = True\<rparr>, w1)
      | (Some task, w1) \<Rightarrow>
          if status task \<noteq> IN_PROGRESS then
            (\<lparr>v_content = VerifyStateError (name task) (task_id task) (status task),
              v_isError = True\<rparr>, w1)
          else
            let w2 = (if score \<ge> 80
                      then updateTaskStatus taskId COMPLETED (updateTaskSummary taskId summ w1)
                      else w1)
            in (\<lparr>v_content = VerifyPrompt task score summ, v_isError = False\<rparr>, w2))"

section \<open>updateTaskContent\<close>

text \<open>
  JavaScript truthiness of the optional arguments: \<open>undefined\<close>, the number 0 and the
  empty string are falsy; every array is truthy.
\<close>

definition truthyNum :: "int option \<Rightarrow> bool" where
  "truthyNum x = (case x of None \<Rightarrow> False | Some n \<Rightarrow> n \<noteq> 0)"

definition truthyStr :: "string option \<Rightarrow> bool" where
  "truthyStr x = (case x of None \<Rightarrow> False | Some s \<Rightarrow> s \<noteq> [])"

definition truthyArr :: "'a list option \<Rightarrow> bool" where
  "truthyArr x = (case x of None \<Rightarrow> False | Some _ \<Rightarrow> True)"

text \<open>The condition of the \<open>if\<close> inside the loop over \<open>relatedFiles\<close>.\<close>

definition invalidLineRange :: "RelatedFile \<Rightarrow> bool" where
  "invalidLineRange file =
     ((truthyNum (lineStart file) \<and> \<not> truthyNum (lineEnd file))
      \<or> (\<not> truthyNum (lineStart file) \<and> truthyNum (lineEnd file))
      \<or> (truthyNum (lineStart file) \<and> truthyNum (lineEnd file)
          \<and> (case (lineStart file, lineEnd file) of
                (Some a, Some b) \<Rightarrow> a > b
              | _ \<Rightarrow> False)))"

text \<open>The loop returns at the first file whose line range is invalid.\<close>

fun anyInvalidLineRange :: "RelatedFile list \<Rightarrow> bool" where
  "anyInvalidLineRange [] = False"
| "anyInvalidLineRange (file # files) =
     (if invalidLineRange file then True else anyInvalidLineRange files)"

text \<open>
  The part of \<open>updateTaskContentSchema\<close> that constrains one related file: a non-empty
  path and, where given, positive line numbers.
\<close>

definition updateRelatedFileSchema :: "RelatedFile \<Rightarrow> bool" where
  "updateRelatedFileSchema f =
     (length (path f) \<ge> 1
      \<and> (case lineStart f of None \<Rightarrow> True | Some n \<Rightarrow> n > 0)
      \<and> (case lineEnd f of None \<Rightarrow> True | Some n \<Rightarrow> n > 0))"

datatype UpdateMessage = UpdatedOk | TaskMissing | TaskAlreadyCompleted

record UpdateResult =
  r_success :: bool
  r_message :: UpdateMessage
  r_task :: "Task option"

definition orKeep :: "'a option \<Rightarrow> 'a \<Rightarrow> 'a" where
  "orKeep x old = (case x of None \<Rightarrow> old | Some v \<Rightarrow> v)"

definition orKeepOpt :: "'a option \<Rightarrow> 'a option \<Rightarrow> 'a option" where
  "orKeepOpt x old = (case x of None \<Rightarrow> old | Some v \<Rightarrow> Some v)"

text \<open>
  Modelled from the spec: \<open>updateTaskContent\<close> of \<open>models/taskModel\<close>. Section 4.4: content
  mutation is rejected once a task is Completed, whichever fields are requested; section 6:
  the outcome is the updated task, NotFound or a StateError. The fields that are given
  replace the stored ones.
\<close>

definition modelUpdateTaskContent ::
  "string \<Rightarrow> string option \<Rightarrow> string option \<Rightarrow> string option \<Rightarrow> RelatedFile list option \<Rightarrow>
   string list option \<Rightarrow> string option \<Rightarrow> string option \<Rightarrow> World \<Rightarrow> UpdateResult \<times> World" where
  "modelUpdateTaskContent taskId name' description' notes' relatedFiles' dependencies'
     implementationGuide' verificationCriteria' w =
     (let w1 = w\<lparr>calls := calls w @ [ModelUpdateTaskContent taskId]\<rparr> in
      case findTask taskId (tasks w) of
        None \<Rightarrow> (\<lparr>r_success = False, r_message = TaskMissing, r_task = None\<rparr>, w1)
      | Some t \<Rightarrow>
          if status t = COMPLETED then
            (\<lparr>r_success = False, r_message = TaskAlreadyCompleted, r_task = None\<rparr>, w1)
          else
            let t' = t\<lparr>name := orKeep name' (name t),
                       description := orKeep description' (description t),
                       task_notes := orKeepOpt notes' (task_notes t),
                       implementationGuide := orKeepOpt implementationGuide' (implementationGuide t),
                       verificationCriteria := orKeepOpt verificationCriteria' (verificationCriteria t),
                       dependencies := orKeep dependencies' (dependencies t),
                       relatedFiles := orKeep relatedFiles' (relatedFiles t),
                       updatedAt := clock w\<rparr>
            in (\<lparr>r_success = True, r_message = UpdatedOk, r_task = Some t'\<rparr>,
                w1\<lparr>tasks := updateTask taskId (\<lambda>_. t') (tasks w), clock := Suc (clock w)\<rparr>))"

datatype UpdateContent =
    UpdateValidationError string
  | UpdateEmptyUpdate string
  | UpdateNotFound string
  | UpdateOutcome string Task bool UpdateMessage "Task option"

record UpdateResponse =
  u_content :: UpdateContent
  u_isError :: bool

text \<open>
  The tool. The order of its early returns is the order of the source: the line ranges,
  the empty update, the existence of the task. (The \<open>updateSummary\<close> string the source
  builds before the update is never used and is left out.)
\<close>

definition updateTaskContent ::
  "string \<Rightarrow> string option \<Rightarrow> string option \<Rightarrow> string option \<Rightarrow> RelatedFile list option \<Rightarrow>
   string list option \<Rightarrow> string option \<Rightarrow> string option \<Rightarrow> World \<Rightarrow> UpdateResponse \<times> World" where
  "updateTaskContent taskId name' description' notes' relatedFiles' dependencies'
     implementationGuide' verificationCriteria' w =
     (if (case relatedFiles' of None \<Rightarrow> False | Some files \<Rightarrow> anyInvalidLineRange files) then
        (\<lparr>u_content = UpdateValidationError taskId, u_isError = False\<rparr>, w)
      else if \<not> (truthyStr name' \<or> truthyStr description' \<or> truthyStr notes'
                 \<or> truthyArr dependencies' \<or> truthyStr implementationGuide'
                 \<or> truthyStr verificationCriteria' \<or> truthyArr relatedFiles') then
        (\<lparr>u_content = UpdateEmptyUpdate taskId, u_isError = False\<rparr>, w)
      else
        case getTaskById taskId w of
          (None, w1) \<Rightarrow> (\<lparr>u_content = UpdateNotFound taskId, u_isError = True\<rparr>, w1)
        | (Some task, w1) \<Rightarrow>
            (case modelUpdateTaskContent taskId name' description' notes' relatedFiles'
                    dependencies' implementationGuide' verificationCriteria' w1 of
               (result, w2) \<Rightarrow>
                 (\<lparr>u_content = UpdateOutcome taskId task (r_success result) (r_message result)
                                (r_task result),
                   u_isError = (\<not> r_success result)\<rparr>, w2)))"

text \<open>
  The pair invariant of a related file in the words of the specification: both line
  numbers present or both absent and, when present, start at most end.
\<close>

definition malformedLineRange :: "RelatedFile \<Rightarrow> bool" where
  "malformedLineRange f =
     (case (lineStart f, lineEnd f) of
        (None, None) \<Rightarrow> False
      | (Some a, None) \<Rightarrow> True
      | (None, Some b) \<Rightarrow> True
      | (Some a, Some b) \<Rightarrow> a > b)"

section \<open>queryTask\<close>

record QueryArgs =
  q_query :: string
  q_isId :: bool
  q_page :: int
  q_pageSize :: int

text \<open>
  \<open>queryTaskSchema\<close>: a non-empty query; \<open>isId\<close> defaults to false; \<open>page\<close> is a
  positive integer, 1 by default; \<open>pageSize\<close> is a positive integer between 1 and 20,
  5 by default. \<open>None\<close> is a rejected input.
\<close>

definition queryTaskSchema ::
  "string \<Rightarrow> bool option \<Rightarrow> int option \<Rightarrow> int option \<Rightarrow> QueryArgs option" where
  "queryTaskSchema query isId page pageSize =
     (if length query \<ge> 1
         \<and> (case page of None \<Rightarrow> True | Some p \<Rightarrow> p > 0)
         \<and> (case pageSize of None \<Rightarrow> True | Some s \<Rightarrow> s > 0 \<and> s \<ge> 1 \<and> s \<le> 20)
      then Some \<lparr>q_query = query,
                 q_isId = (case isId of None \<Rightarrow> False | Some b \<Rightarrow> b),
                 q_page = (case page of None \<Rightarrow> 1 | Some p \<Rightarrow> p),
                 q_pageSize = (case pageSize of None \<Rightarrow> 5 | Some s \<Rightarrow> s)\<rparr>
      else None)"

record Pagination =
  currentPage :: int
  totalPages :: int
  totalResults :: int

record SearchResult =
  sr_tasks :: "Task list"
  sr_pagination :: Pagination

definition isSpace :: "char \<Rightarrow> bool" where
  "isSpace c = (c = CHR '' '' \<or> c = CHR 0x09 \<or> c = CHR 0x0A \<or> c = CHR 0x0D)"

fun splitWhitespace :: "string \<Rightarrow> string \<Rightarrow> string list" where
  "splitWhitespace cur [] = (if cur = [] then [] else [cur])"
| "splitWhitespace cur (c # cs) =
     (if isSpace c
      then (if cur = [] then splitWhitespace [] cs else cur # splitWhitespace [] cs)
      else splitWhitespace (cur @ [c]) cs)"

definition toLower :: "char \<Rightarrow> char" where
  "toLower c = (let n = (of_char c :: nat) in if 65 \<le> n \<and> n \<le> 90 then char_of (n + 32) else c)"

fun containsSubstring :: "string \<Rightarrow> string \<Rightarrow> bool" where
  "containsSubstring needle [] = (needle = [])"
| "containsSubstring needle (c # cs) =
     (take (length needle) (c # cs) = needle \<or> containsSubstring needle cs)"

definition containsIgnoreCase :: "string \<Rightarrow> string \<Rightarrow> bool" where
  "containsIgnoreCase token text = containsSubstring (map toLower token) (map toLower text)"

text \<open>
  Modelled from the spec: the matching of section 4.6, which \<open>searchTasksWithCommand\<close> of
  \<open>models/taskModel\<close> implements. Id mode: the query is the id of the task or a prefix of
  it. Keyword mode: the query is split on whitespace, and every token occurs, whatever
  the case, in the name, the description or the notes. Matches keep the order of the
  store.
\<close>

definition taskMatches :: "string \<Rightarrow> bool \<Rightarrow> Task \<Rightarrow> bool" where
  "taskMatches query isId t =
     (if isId then take (length query) (task_id t) = query
      else list_all
             (\<lambda>token. containsIgnoreCase token (name t)
                      \<or> containsIgnoreCase token (description t)
                      \<or> (case task_notes t of None \<Rightarrow> False
                          | Some n \<Rightarrow> containsIgnoreCase token n))
             (splitWhitespace [] query))"

definition searchMatches :: "string \<Rightarrow> bool \<Rightarrow> Task list \<Rightarrow> Task list" where
  "searchMatches query isId ts = filter (taskMatches query isId) ts"

text \<open>
  Modelled from the spec: the pagination of section 4.6, for \<open>searchTasksWithCommand\<close>.
  The result is the slice of the matches for the page, with the number of matches
  (\<open>totalResults\<close>), the number of pages needed for them (\<open>totalPages\<close>, the matches
  divided by the page size, rounded up) and the page served (\<open>currentPage\<close>). The
  schema keeps \<open>page\<close> at 1 or more and \<open>pageSize\<close> between 1 and 20. The search reads
  the store and raises nothing: its result is always \<open>Inr\<close>.
\<close>

definition searchTasksWithCommand ::
  "string \<Rightarrow> bool \<Rightarrow> int \<Rightarrow> int \<Rightarrow> World \<Rightarrow> (string + SearchResult) \<times> World" where
  "searchTasksWithCommand query isId page pageSize w =
     (let matches = searchMatches query isId (tasks w);
          total = int (length matches)
      in (Inr \<lparr>sr_tasks = take (nat pageSize) (drop (nat ((page - 1) * pageSize)) matches),
               sr_pagination = \<lparr>currentPage = page,
                                 totalPages = (total + pageSize - 1) div pageSize,
                                 totalResults = total\<rparr>\<rparr>,
          w\<lparr>calls := calls w @ [SearchTasksWithCommand query isId page pageSize]\<rparr>))"

record QueryPromptParams =
  qp_query :: string
  qp_isId :: bool
  qp_tasks :: "Task list"
  qp_totalTasks :: int
  qp_page :: int
  qp_pageSize :: int
  qp_totalPages :: int

datatype QueryContent = QueryPrompt QueryPromptParams | QueryError string

record QueryResponse =
  qr_content :: QueryContent
  qr_isError :: bool

text \<open>
  The tool, with the defaults of its own parameter list (\<open>isId = false\<close>, \<open>page = 1\<close>,
  \<open>pageSize = 3\<close>) for arguments that are \<open>undefined\<close>, and the \<open>catch\<close> branch for a
  search that raises.
\<close>

definition queryTask ::
  "string \<Rightarrow> bool option \<Rightarrow> int option \<Rightarrow> int option \<Rightarrow> World \<Rightarrow> QueryResponse \<times> World" where
  "queryTask query isId' page' pageSize' w =
     (let isId = (case isId' of None \<Rightarrow> False | Some b \<Rightarrow> b);
          page = (case page' of None \<Rightarrow> 1 | Some p \<Rightarrow> p);
          pageSize = (case pageSize' of None \<Rightarrow> 3 | Some s \<Rightarrow> s)
      in case searchTasksWithCommand query isId page pageSize w of
           (Inr results, w1) \<Rightarrow>
             (\<lparr>qr_content = QueryPrompt
                 \<lparr>qp_query = query, qp_isId = isId, qp_tasks = sr_tasks results,
                  qp_totalTasks = totalResults (sr_pagination results),
                  qp_page = currentPage (sr_pagination results),
                  qp_pageSize = pageSize,
                  qp_totalPages = totalPages (sr_pagination results)\<rparr>,
               qr_isError = False\<rparr>, w1)
         | (Inl message, w1) \<Rightarrow>
             (\<lparr>qr_content = QueryError message, qr_isError = True\<rparr>, w1))"

text \<open>The tool as the boundary layer calls it: the schema first, then the function.\<close>

definition queryTaskValidated ::
  "string \<Rightarrow> bool option \<Rightarrow> int option \<Rightarrow> int option \<Rightarrow> World \<Rightarrow> (QueryResponse \<times> World) option" where
  "queryTaskValidated query isId page pageSize w =
     (case queryTaskSchema query isId page pageSize of
        None \<Rightarrow> None
      | Some a \<Rightarrow> Some (queryTask (q_query a) (Some (q_isId a)) (Some (q_page a))
                          (Some (q_pageSize a)) w))"

section \<open>DependencyResolver and BatchReconciler\<close>

datatype error = DependencyError string string

text \<open>
  Modelled from the spec: the identifier of a new task is opaque and unique (section 3);
  the model draws it from the counter \<open>nextId\<close> of the world.
\<close>

definition freshId :: "nat \<Rightarrow> string" where
  "freshId n = ''task-'' @ replicate n (CHR ''i'')"

text \<open>
  Modelled from the spec: what becomes of each specification of a batch (section 4.5).
  In \<open>selective\<close> mode a specification whose name an existing task carries updates that
  task in place; every other specification, in every mode, creates a task with a fresh
  identifier.
\<close>

datatype Target = UpdateExisting Task | CreateNew string

fun targetId :: "Target \<Rightarrow> string" where
  "targetId (UpdateExisting t) = task_id t"
| "targetId (CreateNew i) = i"

fun isCreate :: "Target \<Rightarrow> bool" where
  "isCreate (UpdateExisting t) = False"
| "isCreate (CreateNew i) = True"

fun planTargets :: "UpdateMode \<Rightarrow> Task list \<Rightarrow> nat \<Rightarrow> TaskSpec list \<Rightarrow> Target list" where
  "planTargets mode existing n [] = []"
| "planTargets mode existing n (s # ss) =
     (case (if mode = Selective then find (\<lambda>t. name t = sp_name s) existing else None) of
        Some t \<Rightarrow> UpdateExisting t # planTargets mode existing n ss
      | None \<Rightarrow> CreateNew (freshId n) # planTargets mode existing (Suc n) ss)"

text \<open>
  Modelled from the spec: the existing tasks a mode keeps (section 4.5). \<open>append\<close> and
  \<open>selective\<close> keep them all, \<open>overwrite\<close> keeps the Completed ones. The tools never
  pass \<open>clearAllTasks\<close> to the reconciler (they clear the store first and then pass
  \<open>append\<close>); for that mode the reconciler keeps nothing, as step (2) of the mode says.
\<close>

definition retainedTasks :: "UpdateMode \<Rightarrow> Task list \<Rightarrow> Task list" where
  "retainedTasks mode existing =
     (case mode of
        Append \<Rightarrow> existing
      | Overwrite \<Rightarrow> filter (\<lambda>t. status t = COMPLETED) existing
      | Selective \<Rightarrow> existing
      | ClearAllTasks \<Rightarrow> [])"

text \<open>
  Modelled from the spec: the resolution policy of section 4.2. A reference that is the
  id of a task of either pool is that id; otherwise it is read as a name, matched
  exactly, a task of the batch being preferred to an existing one; a reference that
  matches nothing is a \<open>DependencyError\<close> naming the task and the reference. \<open>pool\<close> is
  the existing tasks the mode keeps, \<open>batch\<close> the names of the batch with the ids their
  tasks will carry.
\<close>

definition resolveReference :: "Task list \<Rightarrow> (string \<times> string) list \<Rightarrow> string \<Rightarrow> string option" where
  "resolveReference pool batch r =
     (if r \<in> set (map task_id pool) \<or> r \<in> set (map snd batch) then Some r
      else case map_of batch r of
             Some i \<Rightarrow> Some i
           | None \<Rightarrow> map_option task_id (find (\<lambda>t. name t = r) pool))"

fun resolveDependencies ::
  "Task list \<Rightarrow> (string \<times> string) list \<Rightarrow> string \<Rightarrow> string list \<Rightarrow> error + string list" where
  "resolveDependencies pool batch owner [] = Inr []"
| "resolveDependencies pool batch owner (r # rs) =
     (case resolveReference pool batch r of
        None \<Rightarrow> Inl (DependencyError owner r)
      | Some i \<Rightarrow>
          (case resolveDependencies pool batch owner rs of
             Inl e \<Rightarrow> Inl e
           | Inr ids \<Rightarrow> Inr (i # ids)))"

fun resolveAll ::
  "Task list \<Rightarrow> (string \<times> string) list \<Rightarrow> TaskSpec list \<Rightarrow> error + string list list" where
  "resolveAll pool batch [] = Inr []"
| "resolveAll pool batch (s # ss) =
     (case resolveDependencies pool batch (sp_name s)
             (case sp_dependencies s of None \<Rightarrow> [] | Some rs \<Rightarrow> rs) of
        Inl e \<Rightarrow> Inl e
      | Inr ids \<Rightarrow>
          (case resolveAll pool batch ss of
             Inl e \<Rightarrow> Inl e
           | Inr rest \<Rightarrow> Inr (remdups ids # rest)))"

text \<open>
  Modelled from the spec: a created task (section 4.5, \<open>append\<close>: a fresh id and status
  Pending) and an updated one (\<open>selective\<close>: the mutable fields are replaced; the id,
  \<open>createdAt\<close> and the status are kept).
\<close>

definition newTask :: "nat \<Rightarrow> string \<Rightarrow> TaskSpec \<Rightarrow> string list \<Rightarrow> Task" where
  "newTask now i s deps =
     \<lparr>task_id = i, name = sp_name s, description = sp_description s,
      task_notes = sp_notes s,
      implementationGuide = Some (sp_implementationGuide s),
      verificationCriteria = sp_verificationCriteria s,
      dependencies = deps,
      relatedFiles = (case sp_relatedFiles s of None \<Rightarrow> [] | Some fs \<Rightarrow> fs),
      status = PENDING, summary = None, createdAt = now, updatedAt = now\<rparr>"

definition reviseTask :: "nat \<Rightarrow> TaskSpec \<Rightarrow> string list \<Rightarrow> Task \<Rightarrow> Task" where
  "reviseTask now s deps t =
     t\<lparr>description := sp_description s,
       task_notes := sp_notes s,
       implementationGuide := Some (sp_implementationGuide s),
       verificationCriteria := sp_verificationCriteria s,
       dependencies := deps,
       relatedFiles := (case sp_relatedFiles s of None \<Rightarrow> [] | Some fs \<Rightarrow> fs),
       updatedAt := now\<rparr>"

text \<open>
  The reconciled collection and the tasks created or updated, in the order of the batch.
\<close>

fun commitBatch ::
  "nat \<Rightarrow> (TaskSpec \<times> Target \<times> string list) list \<Rightarrow> Task list \<Rightarrow> Task list \<times> Task list" where
  "commitBatch now [] store = (store, [])"
| "commitBatch now ((s, UpdateExisting t, deps) # rest) store =
     (case commitBatch now rest (updateTask (task_id t) (\<lambda>_. reviseTask now s deps t) store) of
        (store', touched) \<Rightarrow> (store', reviseTask now s deps t # touched))"
| "commitBatch now ((s, CreateNew i, deps) # rest) store =
     (case commitBatch now rest (store @ [newTask now i s deps]) of
        (store', touched) \<Rightarrow> (store', newTask now i s deps # touched))"

text \<open>
  Modelled from the spec: \<open>batchCreateOrUpdateTasks\<close> of \<open>models/taskModel\<close>, the
  reconciler of section 4.5 for the modes the tools pass to it. Dependency resolution
  runs to completion first; a \<open>DependencyError\<close> is raised (\<open>Inl\<close>) with nothing written.
  Otherwise the reconciled collection replaces the persisted one in a single save, and
  the tasks created or updated are returned. The global analysis annotation is
  informational and does not reach the tasks.
\<close>

definition batchCreateOrUpdateTasks ::
  "TaskSpec list \<Rightarrow> UpdateMode \<Rightarrow> string option \<Rightarrow> World \<Rightarrow> (error + Task list) \<times> World" where
  "batchCreateOrUpdateTasks specs mode globalAnalysisResult w =
     (let w1 = w\<lparr>calls := calls w @ [BatchCreateOrUpdateTasks specs mode]\<rparr>;
          kept = retainedTasks mode (tasks w);
          targets = planTargets mode kept (nextId w) specs;
          batch = zip (map sp_name specs) (map targetId targets)
      in case resolveAll kept batch specs of
           Inl e \<Rightarrow> (Inl e, w1)
         | Inr deps \<Rightarrow>
             (case commitBatch (clock w) (zip specs (zip targets deps)) kept of
                (store, touched) \<Rightarrow>
                  (Inr touched,
                   w1\<lparr>tasks := store, clock := Suc (clock w),
                      nextId := nextId w + length (filter isCreate targets)\<rparr>)))"

section \<open>BackupManager\<close>

datatype Message =
    ClearedWithBackup nat
  | ClearFailed
  | CreatedAfterClear nat
  | CreateErrorAfterClear error
  | Appended nat
  | Overwritten nat
  | SelectivelyUpdated nat
  | CreationFailed error

record ClearResult =
  c_success :: bool
  c_message :: Message
  c_backupFile :: "nat option"

text \<open>
  Modelled from the spec: \<open>clearAllTasks\<close> of \<open>models/taskModel\<close> (section 4.3 and steps
  (1) and (2) of the mode). The snapshot of the full collection is taken first; when it
  cannot be written the result is a failure and nothing is changed; when it is written
  every task is discarded, Completed ones too. The handle of a backup is derived from
  the time of the snapshot; the model takes the time itself.
\<close>

definition modelClearAllTasks :: "World \<Rightarrow> ClearResult \<times> World" where
  "modelClearAllTasks w =
     (let w1 = w\<lparr>calls := calls w @ [ModelClearAllTasks]\<rparr> in
      if \<not> backupWritable w then
        (\<lparr>c_success = False, c_message = ClearFailed, c_backupFile = None\<rparr>, w1)
      else
        (\<lparr>c_success = True, c_message = ClearedWithBackup (clock w),
          c_backupFile = Some (clock w)\<rparr>,
         w1\<lparr>backups := backups w @ [(clock w, tasks w)], tasks := [],
            clock := Suc (clock w)\<rparr>))"

text \<open>Modelled from the spec: \<open>getAllTasks\<close> of \<open>models/taskModel\<close> (\<open>loadAll\<close>, section 4.1).\<close>

definition getAllTasks :: "World \<Rightarrow> Task list \<times> World" where
  "getAllTasks w = (tasks w, w\<lparr>calls := calls w @ [GetAllTasks]\<rparr>)"

section \<open>splitTasks and splitTasksRaw\<close>

text \<open>
  The schema of the \<open>tasks\<close> array, the same in \<open>splitTasksSchema\<close> and in the
  \<open>tasksSchema\<close> of \<open>splitTasksRaw\<close>: at least one task; a name of at most 100
  characters; a description of at least 10; for each related file a non-empty path, a
  non-empty description and, where given, positive line numbers. (Lengths count the
  characters of the model's strings.)
\<close>

definition relatedFileSchema :: "RelatedFile \<Rightarrow> bool" where
  "relatedFileSchema f =
     (length (path f) \<ge> 1
      \<and> (case file_description f of None \<Rightarrow> False | Some d \<Rightarrow> length d \<ge> 1)
      \<and> (case lineStart f of None \<Rightarrow> True | Some n \<Rightarrow> n > 0)
      \<and> (case lineEnd f of None \<Rightarrow> True | Some n \<Rightarrow> n > 0))"

definition taskSpecSchema :: "TaskSpec \<Rightarrow> bool" where
  "taskSpecSchema s =
     (length (sp_name s) \<le> 100
      \<and> length (sp_description s) \<ge> 10
      \<and> (case sp_relatedFiles s of None \<Rightarrow> True | Some fs \<Rightarrow> list_all relatedFileSchema fs))"

definition tasksSchema :: "TaskSpec list \<Rightarrow> bool" where
  "tasksSchema ts = (length ts \<ge> 1 \<and> list_all taskSpecSchema ts)"

definition splitTasksSchema :: "UpdateMode \<Rightarrow> TaskSpec list \<Rightarrow> string option \<Rightarrow> bool" where
  "splitTasksSchema updateMode ts globalAnalysisResult = tasksSchema ts"

text \<open>The loop over the batch with \<open>nameSet\<close>: it returns at the first name seen before.\<close>

fun hasDuplicateName :: "string set \<Rightarrow> TaskSpec list \<Rightarrow> bool" where
  "hasDuplicateName nameSet [] = False"
| "hasDuplicateName nameSet (task # rest) =
     (if sp_name task \<in> nameSet then True
      else hasDuplicateName (insert (sp_name task) nameSet) rest)"

text \<open>\<open>convertedTasks\<close>: each task and each related file is copied field by field.\<close>

definition convertFile :: "RelatedFile \<Rightarrow> RelatedFile" where
  "convertFile file =
     \<lparr>path = path file, file_type = file_type file,
      file_description = file_description file,
      lineStart = lineStart file, lineEnd = lineEnd file\<rparr>"

definition convertTask :: "TaskSpec \<Rightarrow> TaskSpec" where
  "convertTask task =
     \<lparr>sp_name = sp_name task, sp_description = sp_description task,
      sp_implementationGuide = sp_implementationGuide task,
      sp_dependencies = sp_dependencies task,
      sp_notes = sp_notes task,
      sp_relatedFiles = map_option (map convertFile) (sp_relatedFiles task),
      sp_verificationCriteria = sp_verificationCriteria task\<rparr>"

record TaskCreationResult =
  success :: bool
  message :: "Message list"
  backupFilePath :: "nat option"

datatype SplitContent =
    DuplicateTaskNames
  | RawFormatError string
  | RawSchemaError
  | SplitPrompt UpdateMode "Task list" "Task list"

record SplitResponse =
  s_content :: SplitContent
  s_ephemeral :: "TaskCreationResult option"

text \<open>
  The message of a successful batch in the modes other than \<open>clearAllTasks\<close> (the
  \<open>switch\<close> has no case for \<open>clearAllTasks\<close>, which leaves the message empty).
\<close>

definition modeMessage :: "UpdateMode \<Rightarrow> nat \<Rightarrow> Message list" where
  "modeMessage updateMode n =
     (case updateMode of
        Append \<Rightarrow> [Appended n]
      | Overwrite \<Rightarrow> [Overwritten n]
      | Selective \<Rightarrow> [SelectivelyUpdated n]
      | ClearAllTasks \<Rightarrow> [])"

text \<open>
  The body the two tools share after the check of the names: the branch on the update
  mode, the reading of all tasks for the report, and the response. The message is the
  list of its parts, in the order in which the source concatenates them. A raised error
  of \<open>batchCreateOrUpdateTasks\<close> is caught where the source catches it. Reading the
  collection does not raise in the model, so the fallback of the source for a failing
  \<open>getAllTasks\<close> and its outermost \<open>catch\<close> have no branch here.
\<close>

definition applyUpdateMode ::
  "UpdateMode \<Rightarrow> TaskSpec list \<Rightarrow> string option \<Rightarrow> World \<Rightarrow> SplitResponse \<times> World" where
  "applyUpdateMode updateMode convertedTasks globalAnalysisResult w =
     (case
        (if updateMode = ClearAllTasks then
           (case modelClearAllTasks w of
              (clearResult, wc) \<Rightarrow>
                if c_success clearResult then
                  (case batchCreateOrUpdateTasks convertedTasks Append globalAnalysisResult wc of
                     (Inr created, wb) \<Rightarrow>
                       (\<lparr>success = True,
                         message = [c_message clearResult, CreatedAfterClear (length created)],
                         backupFilePath = c_backupFile clearResult\<rparr>, created, wb)
                   | (Inl e, wb) \<Rightarrow>
                       (\<lparr>success = False,
                         message = [c_message clearResult, CreateErrorAfterClear e],
                         backupFilePath = c_backupFile clearResult\<rparr>, [], wb))
                else
                  (\<lparr>success = False, message = [c_message clearResult],
                    backupFilePath = None\<rparr>, [], wc))
         else
           (case batchCreateOrUpdateTasks convertedTasks updateMode globalAnalysisResult w of
              (Inr created, wb) \<Rightarrow>
                (\<lparr>success = True, message = modeMessage updateMode (length created),
                  backupFilePath = None\<rparr>, created, wb)
            | (Inl e, wb) \<Rightarrow>
                (\<lparr>success = False, message = [CreationFailed e],
                  backupFilePath = None\<rparr>, [], wb)))
      of (taskCreationResult, createdTasks, w1) \<Rightarrow>
        (case getAllTasks w1 of
           (allTasks, w2) \<Rightarrow>
             (\<lparr>s_content = SplitPrompt updateMode createdTasks allTasks,
               s_ephemeral = Some taskCreationResult\<rparr>, w2)))"

definition splitTasks ::
  "UpdateMode \<Rightarrow> TaskSpec list \<Rightarrow> string option \<Rightarrow> World \<Rightarrow> SplitResponse \<times> World" where
  "splitTasks updateMode ts globalAnalysisResult w =
     (if hasDuplicateName {} ts then
        (\<lparr>s_content = DuplicateTaskNames, s_ephemeral = None\<rparr>, w)
      else applyUpdateMode updateMode (map convertTask ts) globalAnalysisResult w)"

text \<open>
  \<open>tasksRaw\<close> is given by what \<open>JSON.parse\<close> makes of it: a syntax error with its
  message, a value that is not an array of task objects, or such an array.
\<close>

datatype RawTasks = JsonSyntaxError string | JsonOther | JsonTasks "TaskSpec list"

definition splitTasksRaw ::
  "UpdateMode \<Rightarrow> RawTasks \<Rightarrow> string option \<Rightarrow> World \<Rightarrow> SplitResponse \<times> World" where
  "splitTasksRaw updateMode tasksRaw globalAnalysisResult w =
     (case tasksRaw of
        JsonSyntaxError m \<Rightarrow> (\<lparr>s_content = RawFormatError m, s_ephemeral = None\<rparr>, w)
      | JsonOther \<Rightarrow> (\<lparr>s_content = RawSchemaError, s_ephemeral = None\<rparr>, w)
      | JsonTasks ts \<Rightarrow>
          if \<not> tasksSchema ts then
            (\<lparr>s_content = RawSchemaError, s_ephemeral = None\<rparr>, w)
          else if hasDuplicateName {} ts then
            (\<lparr>s_content = DuplicateTaskNames, s_ephemeral = None\<rparr>, w)
          else applyUpdateMode updateMode (map convertTask ts) globalAnalysisResult w)"

section \<open>Concrete inputs\<close>

text \<open>
  A store with one task in progress and one completed task, and a few batches: two
  independent tasks, two tasks of the same name, a task that depends on a task that
  exists nowhere, and a task with a related file that has a start line and no end line.
\<close>

definition taskA :: Task where
  "taskA = \<lparr>task_id = ''task-a'', name = ''Parse input'',
            description = ''Read the input file and parse it'', task_notes = None,
            implementationGuide = None, verificationCriteria = None,
            dependencies = [], relatedFiles = [],
            status = IN_PROGRESS, summary = None, createdAt = 1, updatedAt = 2\<rparr>"

definition taskB :: Task where
  "taskB = \<lparr>task_id = ''task-b'', name = ''Write report'',
            description = ''Render the report as text'', task_notes = Some ''Alpha release'',
            implementationGuide = None, verificationCriteria = None,
            dependencies = [''task-a''], relatedFiles = [],
            status = COMPLETED, summary = Some ''Report rendered'',
            createdAt = 1, updatedAt = 3\<rparr>"

definition world0 :: World where
  "world0 = \<lparr>tasks = [taskA, taskB], backups = [], backupWritable = True,
             clock = 5, nextId = 0, calls = []\<rparr>"

definition mkSpec :: "string \<Rightarrow> string list option \<Rightarrow> RelatedFile list option \<Rightarrow> TaskSpec" where
  "mkSpec n deps files =
     \<lparr>sp_name = n, sp_description = ''A task of the batch'',
      sp_implementationGuide = ''Do the work'', sp_dependencies = deps,
      sp_notes = None, sp_relatedFiles = files, sp_verificationCriteria = None\<rparr>"

definition batchTwo :: "TaskSpec list" where
  "batchTwo = [mkSpec ''Build'' None None, mkSpec ''Test'' (Some [''Build'']) None]"

definition batchSameName :: "TaskSpec list" where
  "batchSameName = [mkSpec ''Build'' None None, mkSpec ''Build'' None None]"

definition batchGhost :: "TaskSpec list" where
  "batchGhost = [mkSpec ''Build'' (Some [''Ghost'']) None]"

definition fileOpenRange :: RelatedFile where
  "fileOpenRange = \<lparr>path = ''src/main.ts'', file_type = TO_MODIFY,
                    file_description = Some ''entry point'',
                    lineStart = Some 5, lineEnd = None\<rparr>"

definition batchOpenRange :: "TaskSpec list" where
  "batchOpenRange = [mkSpec ''Build'' None (Some [fileOpenRange])]"

section \<open>Properties of the store\<close>

lemma findTask_id: "findTask i ts = Some t \<Longrightarrow> task_id t = i"
  by (induction ts) (auto simp: findTask_def split: if_splits)

lemma findTask_updateTask:
  "findTask i ts = Some t \<Longrightarrow> task_id (f t) = i \<Longrightarrow> findTask i (updateTask i f ts) = Some (f t)"
  by (induction ts) (auto simp: findTask_def split: if_splits)

lemma findTask_updateTask_other:
  "j \<noteq> i \<Longrightarrow> (\<And>t. task_id (f t) = task_id t) \<Longrightarrow>
   findTask j (updateTask i f ts) = findTask j ts"
  by (induction ts) (auto simp: findTask_def)

lemma length_updateTask: "length (updateTask i f ts) = length ts"
  by (induction ts) auto

section \<open>Properties of verifyTask\<close>

text \<open>
  C3. For a task whose status is IN_PROGRESS, \<open>verifyTask\<close> with a score of at least 80
  stores the summary on the task and moves it to COMPLETED (every other field but the
  \<open>updatedAt\<close> stamp is kept, and every other task is as it was); with a score below 80
  the task collection is not written at all, so the status stays IN_PROGRESS and the
  summary is not stored. Neither case is reported as an error.
\<close>

theorem verifyTask_in_progress:
  assumes "findTask taskId (tasks w) = Some t" and "status t = IN_PROGRESS"
  shows "(score \<ge> 80 \<longrightarrow>
            (\<exists>t'. findTask taskId (tasks (snd (verifyTask taskId summ score w))) = Some t'
               \<and> summary t' = Some summ \<and> status t' = COMPLETED
               \<and> t'\<lparr>updatedAt := updatedAt t\<rparr> = t\<lparr>summary := Some summ, status := COMPLETED\<rparr>)
            \<and> (\<forall>j. j \<noteq> taskId \<longrightarrow>
                 findTask j (tasks (snd (verifyTask taskId summ score w))) = findTask j (tasks w))
            \<and> length (tasks (snd (verifyTask taskId summ score w))) = length (tasks w))
       \<and> (score < 80 \<longrightarrow>
            tasks (snd (verifyTask taskId summ score w)) = tasks w
            \<and> findTask taskId (tasks (snd (verifyTask taskId summ score w))) = Some t)
       \<and> \<not> v_isError (fst (verifyTask taskId summ score w))
       \<and> v_content (fst (verifyTask taskId summ score w)) = VerifyPrompt t score summ"
proof -
  have tid: "task_id t = taskId"
    using assms(1) by (rule findTask_id)
  let ?f = "\<lambda>u. u\<lparr>summary := Some summ, updatedAt := clock w\<rparr>"
  let ?g = "\<lambda>u. u\<lparr>status := COMPLETED, updatedAt := Suc (clock w)\<rparr>"
  have step1: "findTask taskId (updateTask taskId ?f (tasks w)) = Some (?f t)"
    using findTask_updateTask [where f = ?f, OF assms(1)] tid by simp
  have step2:
    "findTask taskId (updateTask taskId ?g (updateTask taskId ?f (tasks w))) = Some (?g (?f t))"
    using findTask_updateTask [where f = ?g, OF step1] tid by simp
  have other: "findTask j (updateTask taskId ?g (updateTask taskId ?f (tasks w))) = findTask j (tasks w)"
    if "j \<noteq> taskId" for j
    using that by (simp add: findTask_updateTask_other)
  show ?thesis
    using assms step2 other
    by (auto simp: verifyTask_def getTaskById_def updateTaskStatus_def updateTaskSummary_def
        length_updateTask)
qed

text \<open>
  The store of the example holds \<open>taskA\<close> in progress: a score of 80 completes it with
  the summary, a score of 79 writes nothing.
\<close>

theorem verifyTask_in_progress_witness:
  "findTask ''task-a'' (tasks world0) = Some taskA \<and> status taskA = IN_PROGRESS
   \<and> (\<exists>t'. findTask ''task-a'' (tasks (snd (verifyTask ''task-a'' ''All checks pass'' 80 world0))) = Some t'
          \<and> summary t' = Some ''All checks pass'' \<and> status t' = COMPLETED)
   \<and> tasks (snd (verifyTask ''task-a'' ''Needs more work'' 79 world0)) = tasks world0"
proof -
  have h1: "findTask ''task-a'' (tasks world0) = Some taskA"
    by (simp add: findTask_def world0_def taskA_def)
  have h2: "status taskA = IN_PROGRESS"
    by (simp add: taskA_def)
  show ?thesis
    using verifyTask_in_progress [OF h1 h2, of 80 "''All checks pass''"]
      verifyTask_in_progress [OF h1 h2, of 79 "''Needs more work''"] h1 h2
    by auto
qed

text \<open>
  C6. For a task whose status is not IN_PROGRESS (so PENDING or COMPLETED),
  \<open>verifyTask\<close> returns the status error, flagged as an error, whatever the score and
  the summary, and writes nothing: the task collection and the backups are as before,
  and the task is found unchanged.
\<close>

theorem verifyTask_not_in_progress:
  assumes "findTask taskId (tasks w) = Some t" and "status t \<noteq> IN_PROGRESS"
  shows "v_content (fst (verifyTask taskId summ score w)) = VerifyStateError (name t) (task_id t) (status t)
       \<and> v_isError (fst (verifyTask taskId summ score w))
       \<and> tasks (snd (verifyTask taskId summ score w)) = tasks w
       \<and> backups (snd (verifyTask taskId summ score w)) = backups w
       \<and> findTask taskId (tasks (snd (verifyTask taskId summ score w))) = Some t"
  using assms by (simp add: verifyTask_def getTaskById_def)

text \<open>The completed \<open>taskB\<close> of the example store is refused with a score of 95.\<close>

theorem verifyTask_not_in_progress_witness:
  "findTask ''task-b'' (tasks world0) = Some taskB \<and> status taskB \<noteq> IN_PROGRESS
   \<and> v_content (fst (verifyTask ''task-b'' ''All checks pass'' 95 world0))
       = VerifyStateError ''Write report'' ''task-b'' COMPLETED
   \<and> v_isError (fst (verifyTask ''task-b'' ''All checks pass'' 95 world0))
   \<and> tasks (snd (verifyTask ''task-b'' ''All checks pass'' 95 world0)) = tasks world0"
proof -
  have h1: "findTask ''task-b'' (tasks world0) = Some taskB"
    by (simp add: findTask_def world0_def taskA_def taskB_def)
  have h2: "status taskB \<noteq> IN_PROGRESS"
    by (simp add: taskB_def)
  show ?thesis
    using verifyTask_not_in_progress [OF h1 h2, of "''All checks pass''" 95] h1 h2
    by (simp add: taskB_def)
qed

section \<open>Properties of updateTaskContent\<close>

lemma anyInvalidLineRange_iff:
  "anyInvalidLineRange files \<longleftrightarrow> (\<exists>f\<in>set files. invalidLineRange f)"
  by (induction files) auto

text \<open>
  On the files that \<open>updateTaskContentSchema\<close> lets through (line numbers positive where
  given) the check of the tool is the pair invariant of the specification.
\<close>

lemma invalidLineRange_schema:
  "updateRelatedFileSchema f \<Longrightarrow> invalidLineRange f = malformedLineRange f"
  by (auto simp: updateRelatedFileSchema_def invalidLineRange_def malformedLineRange_def
      truthyNum_def split: option.splits)

text \<open>
  On content update the pair invariant is enforced: for files the schema lets through,
  the answer is the line-range validation error exactly when a file has a malformed
  pair.
\<close>

lemma updateTaskContent_validation_iff:
  assumes "\<forall>f\<in>set files. updateRelatedFileSchema f"
  shows "u_content (fst (updateTaskContent taskId name' description' notes' (Some files)
                      dependencies' implementationGuide' verificationCriteria' w))
           = UpdateValidationError taskId
         \<longleftrightarrow> (\<exists>f\<in>set files. malformedLineRange f)"
proof -
  have "anyInvalidLineRange files \<longleftrightarrow> (\<exists>f\<in>set files. malformedLineRange f)"
    using assms invalidLineRange_schema unfolding anyInvalidLineRange_iff by blast
  then show ?thesis
    by (auto simp: updateTaskContent_def getTaskById_def truthyArr_def
        split: option.splits prod.splits)
qed

text \<open>
  C9. A call of \<open>updateTaskContent\<close> that provides none of the optional fields (name,
  description, notes, relatedFiles, dependencies, implementationGuide,
  verificationCriteria) returns the empty-update response and the world exactly as it
  was: no task is read (the record of calls into the task model is unchanged) and
  nothing is written.
\<close>

theorem updateTaskContent_empty_update:
  "updateTaskContent taskId None None None None None None None w
     = (\<lparr>u_content = UpdateEmptyUpdate taskId, u_isError = False\<rparr>, w)"
  by (simp add: updateTaskContent_def truthyStr_def truthyArr_def)

text \<open>
  C10. In \<open>updateTaskContent\<close> the line ranges are validated before the task is looked
  up: when the related files (well-shaped for the schema) contain a malformed pair, one
  line number without the other or a start after the end, the result is the line-range
  validation error, for every task id, known or not, and the world is exactly as it was,
  so the task was never looked up and no NotFound is reported.
\<close>

theorem updateTaskContent_line_range_first:
  assumes "\<forall>f\<in>set files. updateRelatedFileSchema f"
    and "\<exists>f\<in>set files. malformedLineRange f"
  shows "updateTaskContent taskId name' description' notes' (Some files) dependencies'
           implementationGuide' verificationCriteria' w
         = (\<lparr>u_content = UpdateValidationError taskId, u_isError = False\<rparr>, w)"
proof -
  from assms obtain f where "f \<in> set files" "invalidLineRange f"
    using invalidLineRange_schema by blast
  then have "anyInvalidLineRange files"
    unfolding anyInvalidLineRange_iff by blast
  then show ?thesis
    by (simp add: updateTaskContent_def)
qed

text \<open>A file with a start line and no end line, sent for a task id that does not exist.\<close>

theorem updateTaskContent_line_range_first_witness:
  "updateRelatedFileSchema fileOpenRange
   \<and> malformedLineRange fileOpenRange
   \<and> findTask ''no-such-task'' (tasks world0) = None
   \<and> updateTaskContent ''no-such-task'' (Some ''New name'') None None (Some [fileOpenRange])
        None None None world0
      = (\<lparr>u_content = UpdateValidationError ''no-such-task'', u_isError = False\<rparr>, world0)"
proof -
  have h1: "\<forall>f\<in>set [fileOpenRange]. updateRelatedFileSchema f"
    by (simp add: updateRelatedFileSchema_def fileOpenRange_def)
  have h2: "\<exists>f\<in>set [fileOpenRange]. malformedLineRange f"
    by (simp add: malformedLineRange_def fileOpenRange_def)
  have h3: "findTask ''no-such-task'' (tasks world0) = None"
    by (simp add: findTask_def world0_def taskA_def taskB_def)
  show ?thesis
    using updateTaskContent_line_range_first [OF h1 h2] h1 h2 h3 by simp
qed

text \<open>
  For an id that is not in the store, \<open>updateTaskContent\<close> without any field does not
  answer NotFound: it answers with the empty-update response, which is not flagged as an
  error.
\<close>

theorem updateContent_unknown_id_counterexample:
  "findTask ''no-such-task'' (tasks world0) = None
   \<and> fst (updateTaskContent ''no-such-task'' None None None None None None None world0)
       = \<lparr>u_content = UpdateEmptyUpdate ''no-such-task'', u_isError = False\<rparr>
   \<and> u_content (fst (updateTaskContent ''no-such-task'' None None None None None None None world0))
       \<noteq> UpdateNotFound ''no-such-task''"
  by (simp add: updateTaskContent_def truthyStr_def truthyArr_def findTask_def world0_def
      taskA_def taskB_def)

text \<open>
  C7, amended. For a task id that is not in the store, \<open>verifyTask\<close> returns the
  NotFound response, flagged as an error. \<open>updateTaskContent\<close> returns its NotFound
  response, flagged as an error, whenever the call passes the two checks that come
  before the lookup: no related file fails the line-range check, and at least one field
  carries a value (a non-empty string for the name, the description, the notes, the
  implementation guide or the verification criteria, or an array, empty or not, for
  the dependencies or the related files). Otherwise it returns the line-range
  validation response when a related file fails the line-range check, and the
  empty-update response when none does and no field carries a value; neither is flagged
  as an error. In every case the task collection and the backups are left as they were.
\<close>

theorem unknown_id_not_found:
  assumes "findTask taskId (tasks w) = None"
  shows "v_content (fst (verifyTask taskId summ score w)) = VerifyNotFound taskId
       \<and> v_isError (fst (verifyTask taskId summ score w))
       \<and> tasks (snd (verifyTask taskId summ score w)) = tasks w
       \<and> backups (snd (verifyTask taskId summ score w)) = backups w
       \<and> ((case relatedFiles' of None \<Rightarrow> True | Some files \<Rightarrow> \<not> anyInvalidLineRange files)
            \<and> (truthyStr name' \<or> truthyStr description' \<or> truthyStr notes'
                 \<or> truthyArr dependencies' \<or> truthyStr implementationGuide'
                 \<or> truthyStr verificationCriteria' \<or> truthyArr relatedFiles')
          \<longrightarrow> fst (updateTaskContent taskId name' description' notes' relatedFiles' dependencies'
                      implementationGuide' verificationCriteria' w)
               = \<lparr>u_content = UpdateNotFound taskId, u_isError = True\<rparr>)
       \<and> ((case relatedFiles' of None \<Rightarrow> False | Some files \<Rightarrow> anyInvalidLineRange files)
          \<longrightarrow> fst (updateTaskContent taskId name' description' notes' relatedFiles' dependencies'
                      implementationGuide' verificationCriteria' w)
               = \<lparr>u_content = UpdateValidationError taskId, u_isError = False\<rparr>)
       \<and> ((case relatedFiles' of None \<Rightarrow> True | Some files \<Rightarrow> \<not> anyInvalidLineRange files)
            \<and> \<not> (truthyStr name' \<or> truthyStr description' \<or> truthyStr notes'
                   \<or> truthyArr dependencies' \<or> truthyStr implementationGuide'
                   \<or> truthyStr verificationCriteria' \<or> truthyArr relatedFiles')
          \<longrightarrow> fst (updateTaskContent taskId name' description' notes' relatedFiles' dependencies'
                      implementationGuide' verificationCriteria' w)
               = \<lparr>u_content = UpdateEmptyUpdate taskId, u_isError = False\<rparr>)
       \<and> tasks (snd (updateTaskContent taskId name' description' notes' relatedFiles' dependencies'
                      implementationGuide' verificationCriteria' w)) = tasks w
       \<and> backups (snd (updateTaskContent taskId name' description' notes' relatedFiles' dependencies'
                      implementationGuide' verificationCriteria' w)) = backups w"
  using assms
  by (auto simp: verifyTask_def updateTaskContent_def getTaskById_def split: option.splits)

text \<open>
  An unknown id: verified; updated with a new name; updated with an empty name and
  nothing else; updated with a related file that has a start line and no end line.
\<close>

theorem unknown_id_not_found_witness:
  "findTask ''no-such-task'' (tasks world0) = None
   \<and> fst (verifyTask ''no-such-task'' ''All checks pass'' 90 world0)
       = \<lparr>v_content = VerifyNotFound ''no-such-task'', v_isError = True\<rparr>
   \<and> truthyStr (Some ''New name'')
   \<and> fst (updateTaskContent ''no-such-task'' (Some ''New name'') None None None None None None world0)
       = \<lparr>u_content = UpdateNotFound ''no-such-task'', u_isError = True\<rparr>
   \<and> tasks (snd (updateTaskContent ''no-such-task'' (Some ''New name'') None None None None None None world0))
       = tasks world0
   \<and> \<not> truthyStr (Some [])
   \<and> fst (updateTaskContent ''no-such-task'' (Some []) None None None None None None world0)
       = \<lparr>u_content = UpdateEmptyUpdate ''no-such-task'', u_isError = False\<rparr>
   \<and> anyInvalidLineRange [fileOpenRange]
   \<and> fst (updateTaskContent ''no-such-task'' (Some ''New name'') None None (Some [fileOpenRange])
             None None None world0)
       = \<lparr>u_content = UpdateValidationError ''no-such-task'', u_isError = False\<rparr>"
proof -
  have h: "findTask ''no-such-task'' (tasks world0) = None"
    by (simp add: findTask_def world0_def taskA_def taskB_def)
  have t: "truthyStr (Some ''New name'')" "\<not> truthyStr (Some [])"
    by (simp_all add: truthyStr_def)
  have i: "invalidLineRange fileOpenRange"
    by (simp add: invalidLineRange_def truthyNum_def fileOpenRange_def)
  then have r: "anyInvalidLineRange [fileOpenRange]"
    by simp
  have v: "fst (verifyTask ''no-such-task'' ''All checks pass'' 90 world0)
       = \<lparr>v_content = VerifyNotFound ''no-such-task'', v_isError = True\<rparr>"
    using unknown_id_not_found [OF h, of "''All checks pass''" 90 None "Some ''New name''" None None None None None]
    by (cases "fst (verifyTask ''no-such-task'' ''All checks pass'' 90 world0)") simp
  have n: "fst (updateTaskContent ''no-such-task'' (Some ''New name'') None None None None None None world0)
       = \<lparr>u_content = UpdateNotFound ''no-such-task'', u_isError = True\<rparr>
     \<and> tasks (snd (updateTaskContent ''no-such-task'' (Some ''New name'') None None None None None None world0))
       = tasks world0"
    using unknown_id_not_found [OF h, of "''All checks pass''" 90 None "Some ''New name''" None None None None None]
      t
    by simp
  have e: "fst (updateTaskContent ''no-such-task'' (Some []) None None None None None None world0)
       = \<lparr>u_content = UpdateEmptyUpdate ''no-such-task'', u_isError = False\<rparr>"
    using unknown_id_not_found [OF h, of "''All checks pass''" 90 None "Some []" None None None None None]
    by (simp add: truthyStr_def truthyArr_def)
  have x: "fst (updateTaskContent ''no-such-task'' (Some ''New name'') None None (Some [fileOpenRange])
             None None None world0)
       = \<lparr>u_content = UpdateValidationError ''no-such-task'', u_isError = False\<rparr>"
    using unknown_id_not_found [OF h, of "''All checks pass''" 90 "Some [fileOpenRange]"
        "Some ''New name''" None None None None None]
      i
    by simp
  from h v t(1) n t(2) e r x show ?thesis
    by blast
qed

section \<open>Properties of splitTasks and splitTasksRaw\<close>

text \<open>
  The loop with \<open>nameSet\<close> finds a duplicate exactly when a name of the batch is already
  in the set or two tasks of the batch carry the same name.
\<close>

lemma hasDuplicateName_iff:
  "hasDuplicateName nameSet ts \<longleftrightarrow>
     (\<not> distinct (map sp_name ts) \<or> (\<exists>n\<in>set (map sp_name ts). n \<in> nameSet))"
proof (induction ts arbitrary: nameSet)
  case Nil
  show ?case by simp
next
  case (Cons t ts)
  show ?case
  proof (cases "sp_name t \<in> nameSet")
    case True
    then show ?thesis by auto
  next
    case False
    have "hasDuplicateName nameSet (t # ts) = hasDuplicateName (insert (sp_name t) nameSet) ts"
      using False by simp
    also have "\<dots> = (\<not> distinct (map sp_name ts)
                     \<or> (\<exists>n\<in>set (map sp_name ts). n \<in> insert (sp_name t) nameSet))"
      by (rule Cons.IH)
    also have "\<dots> = (\<not> distinct (map sp_name (t # ts))
                     \<or> (\<exists>n\<in>set (map sp_name (t # ts)). n \<in> nameSet))"
      using False by (auto intro: rev_image_eqI)
    finally show ?thesis .
  qed
qed

lemma hasDuplicateName_empty: "hasDuplicateName {} ts \<longleftrightarrow> \<not> distinct (map sp_name ts)"
  by (simp add: hasDuplicateName_iff)

text \<open>\<open>convertedTasks\<close> is the batch itself: the conversion copies every field.\<close>

lemma convertFile_id: "convertFile f = f"
  by (simp add: convertFile_def)

lemma convertTask_id: "convertTask s = s"
proof -
  have "map convertFile fs = fs" for fs
    by (induction fs) (simp_all add: convertFile_id)
  then have "map_option (map convertFile) x = x" for x
    by (cases x) simp_all
  then show ?thesis
    by (simp add: convertTask_def)
qed

lemma map_convertTask: "map convertTask ts = ts"
  by (induction ts) (simp_all add: convertTask_id)

text \<open>
  C4. A batch in which two task specifications (at positions \<open>i < j\<close>) carry the same
  name is refused in every update mode: \<open>splitTasks\<close> returns the duplicate-name error
  and the world exactly as it was, so no function of the task model was called, no
  backup was taken and no task was cleared or created. \<open>splitTasksRaw\<close> leaves the world
  as it was too; its answer is the duplicate-name error when the batch passes
  \<open>tasksSchema\<close> and the schema error otherwise.
\<close>

theorem duplicate_names_rejected:
  assumes "i < j" and "j < length ts" and "sp_name (ts ! i) = sp_name (ts ! j)"
  shows "splitTasks updateMode ts g w = (\<lparr>s_content = DuplicateTaskNames, s_ephemeral = None\<rparr>, w)
       \<and> snd (splitTasksRaw updateMode (JsonTasks ts) g w) = w
       \<and> s_content (fst (splitTasksRaw updateMode (JsonTasks ts) g w))
           = (if tasksSchema ts then DuplicateTaskNames else RawSchemaError)
       \<and> s_ephemeral (fst (splitTasksRaw updateMode (JsonTasks ts) g w)) = None"
proof -
  have "i < length (map sp_name ts)" "j < length (map sp_name ts)" "i \<noteq> j"
    and "map sp_name ts ! i = map sp_name ts ! j"
    using assms by simp_all
  then have "\<not> distinct (map sp_name ts)"
    unfolding distinct_conv_nth by blast
  then have "hasDuplicateName {} ts"
    by (simp add: hasDuplicateName_empty)
  then show ?thesis
    by (simp add: splitTasks_def splitTasksRaw_def)
qed

text \<open>Two tasks named Build, sent in \<open>clearAllTasks\<close> mode and, raw, in \<open>overwrite\<close> mode.\<close>

theorem duplicate_names_rejected_witness:
  "(0::nat) < 1 \<and> 1 < length batchSameName
   \<and> sp_name (batchSameName ! 0) = sp_name (batchSameName ! 1)
   \<and> splitTasks ClearAllTasks batchSameName None world0
       = (\<lparr>s_content = DuplicateTaskNames, s_ephemeral = None\<rparr>, world0)
   \<and> splitTasksRaw Overwrite (JsonTasks batchSameName) None world0
       = (\<lparr>s_content = DuplicateTaskNames, s_ephemeral = None\<rparr>, world0)"
proof -
  have h1: "(0::nat) < 1" by simp
  have h2: "1 < length batchSameName" by (simp add: batchSameName_def)
  have h3: "sp_name (batchSameName ! 0) = sp_name (batchSameName ! 1)"
    by (simp add: batchSameName_def)
  have h4: "tasksSchema batchSameName"
    by (simp add: tasksSchema_def taskSpecSchema_def batchSameName_def mkSpec_def)
  have r: "splitTasksRaw Overwrite (JsonTasks batchSameName) None world0
       = (\<lparr>s_content = DuplicateTaskNames, s_ephemeral = None\<rparr>, world0)"
    using duplicate_names_rejected [OF h1 h2 h3, of Overwrite None world0] h4
    by (cases "splitTasksRaw Overwrite (JsonTasks batchSameName) None world0")
       (cases "fst (splitTasksRaw Overwrite (JsonTasks batchSameName) None world0)", simp)
  show ?thesis
    using duplicate_names_rejected [OF h1 h2 h3, of ClearAllTasks None world0] h1 h2 h3 r
    by simp
qed

text \<open>A reconciler that raises has written nothing; the tool then reports the failure.\<close>

lemma batchCreateOrUpdateTasks_failure:
  "fst (batchCreateOrUpdateTasks specs mode g w) = Inl e \<Longrightarrow>
   snd (batchCreateOrUpdateTasks specs mode g w)
     = w\<lparr>calls := calls w @ [BatchCreateOrUpdateTasks specs mode]\<rparr>"
  by (auto simp: batchCreateOrUpdateTasks_def Let_def split: sum.splits prod.splits)

lemma applyUpdateMode_failure:
  assumes "updateMode \<noteq> ClearAllTasks"
    and "fst (batchCreateOrUpdateTasks specs updateMode g w) = Inl e"
  shows "applyUpdateMode updateMode specs g w =
     (\<lparr>s_content = SplitPrompt updateMode [] (tasks w),
       s_ephemeral = Some \<lparr>success = False, message = [CreationFailed e], backupFilePath = None\<rparr>\<rparr>,
      w\<lparr>calls := calls w @ [BatchCreateOrUpdateTasks specs updateMode, GetAllTasks]\<rparr>)"
proof -
  obtain r wb where b: "batchCreateOrUpdateTasks specs updateMode g w = (r, wb)"
    by (cases "batchCreateOrUpdateTasks specs updateMode g w")
  with assms(2) have r: "r = Inl e" by simp
  from batchCreateOrUpdateTasks_failure [OF assms(2)] b
  have wb: "wb = w\<lparr>calls := calls w @ [BatchCreateOrUpdateTasks specs updateMode]\<rparr>" by simp
  show ?thesis
    using assms(1) by (simp add: applyUpdateMode_def b r wb getAllTasks_def)
qed

text \<open>
  The reconciler raises exactly for a reference that resolves to nothing, and the error
  names the task and the reference.
\<close>

lemma resolveDependencies_Inl:
  "resolveDependencies pool batch owner rs = Inl e \<Longrightarrow>
   \<exists>r\<in>set rs. e = DependencyError owner r \<and> resolveReference pool batch r = None"
  by (induction rs arbitrary: e) (auto split: option.splits sum.splits)

lemma resolveDependencies_Inr:
  "resolveDependencies pool batch owner rs = Inr ids \<Longrightarrow>
   \<forall>r\<in>set rs. resolveReference pool batch r \<noteq> None"
  by (induction rs arbitrary: ids) (auto split: option.splits sum.splits)

lemma resolveAll_Inl:
  "resolveAll pool batch ss = Inl e \<Longrightarrow>
   \<exists>s\<in>set ss. \<exists>r\<in>set (case sp_dependencies s of None \<Rightarrow> [] | Some rs \<Rightarrow> rs).
      e = DependencyError (sp_name s) r \<and> resolveReference pool batch r = None"
proof (induction ss arbitrary: e)
  case Nil
  then show ?case by simp
next
  case (Cons s ss)
  show ?case
  proof (cases "resolveDependencies pool batch (sp_name s)
                  (case sp_dependencies s of None \<Rightarrow> [] | Some rs \<Rightarrow> rs)")
    case (Inl e')
    with Cons.prems have "e' = e" by simp
    with Inl resolveDependencies_Inl show ?thesis by fastforce
  next
    case (Inr ids)
    with Cons.prems have "resolveAll pool batch ss = Inl e"
      by (simp split: sum.splits)
    from Cons.IH [OF this] show ?thesis by auto
  qed
qed

lemma resolveAll_length: "resolveAll pool batch ss = Inr deps \<Longrightarrow> length deps = length ss"
  by (induction ss arbitrary: deps) (auto split: sum.splits)

lemma batchCreateOrUpdateTasks_error:
  assumes "fst (batchCreateOrUpdateTasks specs mode g w) = Inl e"
  shows "\<exists>s\<in>set specs. \<exists>r\<in>set (case sp_dependencies s of None \<Rightarrow> [] | Some rs \<Rightarrow> rs).
           e = DependencyError (sp_name s) r"
proof -
  let ?kept = "retainedTasks mode (tasks w)"
  let ?batch = "zip (map sp_name specs) (map targetId (planTargets mode ?kept (nextId w) specs))"
  have "resolveAll ?kept ?batch specs = Inl e"
    using assms
    by (auto simp: batchCreateOrUpdateTasks_def Let_def split: sum.splits prod.splits)
  from resolveAll_Inl [OF this] show ?thesis by blast
qed

text \<open>The two outcomes of the backup-and-clear step.\<close>

lemma modelClearAllTasks_writable:
  "backupWritable w \<Longrightarrow>
   modelClearAllTasks w =
     (\<lparr>c_success = True, c_message = ClearedWithBackup (clock w), c_backupFile = Some (clock w)\<rparr>,
      w\<lparr>calls := calls w @ [ModelClearAllTasks],
        backups := backups w @ [(clock w, tasks w)], tasks := [], clock := Suc (clock w)\<rparr>)"
  by (simp add: modelClearAllTasks_def)

lemma modelClearAllTasks_unwritable:
  "\<not> backupWritable w \<Longrightarrow>
   modelClearAllTasks w =
     (\<lparr>c_success = False, c_message = ClearFailed, c_backupFile = None\<rparr>,
      w\<lparr>calls := calls w @ [ModelClearAllTasks]\<rparr>)"
  by (simp add: modelClearAllTasks_def)

lemma batchCreateOrUpdateTasks_calls:
  "calls (snd (batchCreateOrUpdateTasks specs mode g w))
     = calls w @ [BatchCreateOrUpdateTasks specs mode]"
  by (auto simp: batchCreateOrUpdateTasks_def Let_def split: sum.splits prod.splits)

lemma applyUpdateMode_clear_failure:
  assumes "backupWritable w"
    and "fst (batchCreateOrUpdateTasks specs Append g (snd (modelClearAllTasks w))) = Inl e"
  shows "applyUpdateMode ClearAllTasks specs g w =
     (\<lparr>s_content = SplitPrompt ClearAllTasks [] [],
       s_ephemeral = Some \<lparr>success = False,
                            message = [ClearedWithBackup (clock w), CreateErrorAfterClear e],
                            backupFilePath = Some (clock w)\<rparr>\<rparr>,
      w\<lparr>calls := calls w @ [ModelClearAllTasks, BatchCreateOrUpdateTasks specs Append, GetAllTasks],
        backups := backups w @ [(clock w, tasks w)], tasks := [], clock := Suc (clock w)\<rparr>)"
proof -
  let ?wc = "snd (modelClearAllTasks w)"
  note mc = modelClearAllTasks_writable [OF assms(1)]
  obtain r wb where b: "batchCreateOrUpdateTasks specs Append g ?wc = (r, wb)"
    by (cases "batchCreateOrUpdateTasks specs Append g ?wc")
  with assms(2) have r: "r = Inl e" by simp
  from batchCreateOrUpdateTasks_failure [OF assms(2)] b
  have wb: "wb = ?wc\<lparr>calls := calls ?wc @ [BatchCreateOrUpdateTasks specs Append]\<rparr>" by simp
  have b': "batchCreateOrUpdateTasks specs Append g
              (w\<lparr>calls := calls w @ [ModelClearAllTasks],
                 backups := backups w @ [(clock w, tasks w)], tasks := [],
                 clock := Suc (clock w)\<rparr>) = (Inl e, wb)"
    using b r by (simp add: mc)
  show ?thesis
    unfolding applyUpdateMode_def
    by (simp add: mc b' getAllTasks_def) (simp add: wb mc)
qed

text \<open>
  C1, amended. In every update mode a batch that fails the check of the names is refused
  with the world exactly as it was. In the modes \<open>append\<close>, \<open>overwrite\<close> and
  \<open>selective\<close> a batch for which the reconciler raises a dependency error leaves the
  task collection and the backups as they were, and the result is a failure whose
  message carries the error, which names the task and the unresolved reference. In
  \<open>clearAllTasks\<close> mode the names are still checked before anything is changed, but the
  dependencies are resolved only after the backup-and-clear step: a dependency error is
  then reported as a failure, with the handle of the backup, while the collection has
  already been emptied and backed up.
\<close>

theorem batch_failure_leaves_store:
  "(\<not> distinct (map sp_name ts) \<longrightarrow>
      splitTasks updateMode ts g w = (\<lparr>s_content = DuplicateTaskNames, s_ephemeral = None\<rparr>, w)
      \<and> snd (splitTasksRaw updateMode (JsonTasks ts) g w) = w
      \<and> s_ephemeral (fst (splitTasksRaw updateMode (JsonTasks ts) g w)) = None)
   \<and> (distinct (map sp_name ts) \<and> updateMode \<noteq> ClearAllTasks
        \<and> fst (batchCreateOrUpdateTasks (map convertTask ts) updateMode g w) = Inl e \<longrightarrow>
        tasks (snd (splitTasks updateMode ts g w)) = tasks w
        \<and> backups (snd (splitTasks updateMode ts g w)) = backups w
        \<and> s_ephemeral (fst (splitTasks updateMode ts g w))
            = Some \<lparr>success = False, message = [CreationFailed e], backupFilePath = None\<rparr>
        \<and> (\<exists>s\<in>set ts. \<exists>r\<in>set (case sp_dependencies s of None \<Rightarrow> [] | Some rs \<Rightarrow> rs).
              e = DependencyError (sp_name s) r)
        \<and> tasks (snd (splitTasksRaw updateMode (JsonTasks ts) g w)) = tasks w
        \<and> backups (snd (splitTasksRaw updateMode (JsonTasks ts) g w)) = backups w
        \<and> s_ephemeral (fst (splitTasksRaw updateMode (JsonTasks ts) g w))
            = (if tasksSchema ts
               then Some \<lparr>success = False, message = [CreationFailed e], backupFilePath = None\<rparr>
               else None))
   \<and> (distinct (map sp_name ts) \<and> backupWritable w
        \<and> fst (batchCreateOrUpdateTasks (map convertTask ts) Append g (snd (modelClearAllTasks w)))
            = Inl e \<longrightarrow>
        tasks (snd (splitTasks ClearAllTasks ts g w)) = []
        \<and> backups (snd (splitTasks ClearAllTasks ts g w)) = backups w @ [(clock w, tasks w)]
        \<and> s_ephemeral (fst (splitTasks ClearAllTasks ts g w))
            = Some \<lparr>success = False,
                    message = [ClearedWithBackup (clock w), CreateErrorAfterClear e],
                    backupFilePath = Some (clock w)\<rparr>)"
proof (intro conjI impI)
  assume c: "distinct (map sp_name ts) \<and> backupWritable w
        \<and> fst (batchCreateOrUpdateTasks (map convertTask ts) Append g (snd (modelClearAllTasks w)))
            = Inl e"
  then have nodup: "\<not> hasDuplicateName {} ts"
    by (simp add: hasDuplicateName_empty)
  from c have wr: "backupWritable w"
    and f: "fst (batchCreateOrUpdateTasks (map convertTask ts) Append g (snd (modelClearAllTasks w)))
            = Inl e"
    by simp_all
  note ap = applyUpdateMode_clear_failure [OF wr f]
  have st: "splitTasks ClearAllTasks ts g w = applyUpdateMode ClearAllTasks (map convertTask ts) g w"
    using nodup by (simp add: splitTasks_def)
  show "tasks (snd (splitTasks ClearAllTasks ts g w)) = []"
    by (simp add: st ap)
  show "backups (snd (splitTasks ClearAllTasks ts g w)) = backups w @ [(clock w, tasks w)]"
    by (simp add: st ap)
  show "s_ephemeral (fst (splitTasks ClearAllTasks ts g w))
            = Some \<lparr>success = False,
                    message = [ClearedWithBackup (clock w), CreateErrorAfterClear e],
                    backupFilePath = Some (clock w)\<rparr>"
    by (simp add: st ap)
next
  assume dup: "\<not> distinct (map sp_name ts)"
  then have h: "hasDuplicateName {} ts"
    by (simp add: hasDuplicateName_empty)
  show "splitTasks updateMode ts g w = (\<lparr>s_content = DuplicateTaskNames, s_ephemeral = None\<rparr>, w)"
    using h by (simp add: splitTasks_def)
  show "snd (splitTasksRaw updateMode (JsonTasks ts) g w) = w"
    using h by (simp add: splitTasksRaw_def)
  show "s_ephemeral (fst (splitTasksRaw updateMode (JsonTasks ts) g w)) = None"
    using h by (simp add: splitTasksRaw_def)
next
  assume a: "distinct (map sp_name ts) \<and> updateMode \<noteq> ClearAllTasks
        \<and> fst (batchCreateOrUpdateTasks (map convertTask ts) updateMode g w) = Inl e"
  then have nodup: "\<not> hasDuplicateName {} ts"
    by (simp add: hasDuplicateName_empty)
  from a have m: "updateMode \<noteq> ClearAllTasks"
    and f: "fst (batchCreateOrUpdateTasks (map convertTask ts) updateMode g w) = Inl e"
    by simp_all
  note ap = applyUpdateMode_failure [OF m f]
  have st: "splitTasks updateMode ts g w = applyUpdateMode updateMode (map convertTask ts) g w"
    using nodup by (simp add: splitTasks_def)
  have raw: "splitTasksRaw updateMode (JsonTasks ts) g w =
      (if tasksSchema ts then applyUpdateMode updateMode (map convertTask ts) g w
       else (\<lparr>s_content = RawSchemaError, s_ephemeral = None\<rparr>, w))"
    using nodup by (simp add: splitTasksRaw_def)
  show "tasks (snd (splitTasks updateMode ts g w)) = tasks w"
    by (simp add: st ap)
  show "backups (snd (splitTasks updateMode ts g w)) = backups w"
    by (simp add: st ap)
  show "s_ephemeral (fst (splitTasks updateMode ts g w))
            = Some \<lparr>success = False, message = [CreationFailed e], backupFilePath = None\<rparr>"
    by (simp add: st ap)
  show "\<exists>s\<in>set ts. \<exists>r\<in>set (case sp_dependencies s of None \<Rightarrow> [] | Some rs \<Rightarrow> rs).
              e = DependencyError (sp_name s) r"
    using batchCreateOrUpdateTasks_error [OF f] by (simp add: map_convertTask)
  show "tasks (snd (splitTasksRaw updateMode (JsonTasks ts) g w)) = tasks w"
    by (simp add: raw ap)
  show "backups (snd (splitTasksRaw updateMode (JsonTasks ts) g w)) = backups w"
    by (simp add: raw ap)
  show "s_ephemeral (fst (splitTasksRaw updateMode (JsonTasks ts) g w))
            = (if tasksSchema ts
               then Some \<lparr>success = False, message = [CreationFailed e], backupFilePath = None\<rparr>
               else None)"
    by (simp add: raw ap)
qed

text \<open>
  In \<open>clearAllTasks\<close> mode a batch whose only task depends on a task that exists nowhere
  fails dependency resolution, and the store is not left as it was: both tasks of the
  example store are gone and a backup has been written.
\<close>

theorem clearAllTasks_dependency_failure_counterexample:
  "distinct (map sp_name batchGhost)
   \<and> s_ephemeral (fst (splitTasks ClearAllTasks batchGhost None world0))
       = Some \<lparr>success = False,
               message = [ClearedWithBackup 5,
                          CreateErrorAfterClear (DependencyError ''Build'' ''Ghost'')],
               backupFilePath = Some 5\<rparr>
   \<and> tasks world0 = [taskA, taskB]
   \<and> tasks (snd (splitTasks ClearAllTasks batchGhost None world0)) = []
   \<and> backups world0 = []
   \<and> backups (snd (splitTasks ClearAllTasks batchGhost None world0)) = [(5, [taskA, taskB])]"
  by (simp add: splitTasks_def applyUpdateMode_def modelClearAllTasks_def
      batchCreateOrUpdateTasks_def getAllTasks_def retainedTasks_def resolveReference_def
      convertTask_def freshId_def batchGhost_def world0_def mkSpec_def)

text \<open>
  The batch with two tasks of one name, and the batch with the unresolved reference in
  \<open>overwrite\<close> and in \<open>clearAllTasks\<close> mode, on the example store.
\<close>

theorem batch_failure_leaves_store_witness:
  "\<not> distinct (map sp_name batchSameName)
   \<and> splitTasks ClearAllTasks batchSameName None world0
       = (\<lparr>s_content = DuplicateTaskNames, s_ephemeral = None\<rparr>, world0)
   \<and> distinct (map sp_name batchGhost)
   \<and> fst (batchCreateOrUpdateTasks (map convertTask batchGhost) Overwrite None world0)
       = Inl (DependencyError ''Build'' ''Ghost'')
   \<and> tasks (snd (splitTasks Overwrite batchGhost None world0)) = tasks world0
   \<and> backups (snd (splitTasks Overwrite batchGhost None world0)) = backups world0
   \<and> s_ephemeral (fst (splitTasks Overwrite batchGhost None world0))
       = Some \<lparr>success = False,
               message = [CreationFailed (DependencyError ''Build'' ''Ghost'')],
               backupFilePath = None\<rparr>
   \<and> backupWritable world0
   \<and> fst (batchCreateOrUpdateTasks (map convertTask batchGhost) Append None
            (snd (modelClearAllTasks world0)))
       = Inl (DependencyError ''Build'' ''Ghost'')
   \<and> s_ephemeral (fst (splitTasks ClearAllTasks batchGhost None world0))
       = Some \<lparr>success = False,
               message = [ClearedWithBackup (clock world0),
                          CreateErrorAfterClear (DependencyError ''Build'' ''Ghost'')],
               backupFilePath = Some (clock world0)\<rparr>"
proof -
  have h1: "\<not> distinct (map sp_name batchSameName)"
    by (simp add: batchSameName_def mkSpec_def)
  have h2: "distinct (map sp_name batchGhost)"
    by (simp add: batchGhost_def mkSpec_def)
  have h3: "fst (batchCreateOrUpdateTasks (map convertTask batchGhost) Overwrite None world0)
       = Inl (DependencyError ''Build'' ''Ghost'')"
    by (simp add: batchCreateOrUpdateTasks_def retainedTasks_def resolveReference_def
        convertTask_def freshId_def batchGhost_def world0_def taskA_def taskB_def mkSpec_def)
  have h4: "Overwrite \<noteq> ClearAllTasks" by simp
  have h5: "backupWritable world0"
    by (simp add: world0_def)
  have h6: "fst (batchCreateOrUpdateTasks (map convertTask batchGhost) Append None
                 (snd (modelClearAllTasks world0)))
       = Inl (DependencyError ''Build'' ''Ghost'')"
    by (simp add: batchCreateOrUpdateTasks_def modelClearAllTasks_def retainedTasks_def
        resolveReference_def convertTask_def freshId_def batchGhost_def world0_def mkSpec_def)
  show ?thesis
    using batch_failure_leaves_store [of batchSameName ClearAllTasks None world0]
      batch_failure_leaves_store [of batchGhost Overwrite None world0
        "DependencyError ''Build'' ''Ghost''"]
      h1 h2 h3 h4 h5 h6
    by simp
qed

text \<open>
  Outside \<open>selective\<close> mode every specification creates a task, and the reconciled
  collection is the kept tasks followed by the created ones.
\<close>

lemma planTargets_creates:
  "mode \<noteq> Selective \<Longrightarrow> list_all isCreate (planTargets mode existing n ss)
     \<and> length (planTargets mode existing n ss) = length ss"
  by (induction ss arbitrary: n) simp_all

lemma commitBatch_creates:
  "list_all (\<lambda>(s, t, deps). isCreate t) plan \<Longrightarrow>
   commitBatch now plan store
     = (store @ map (\<lambda>(s, t, deps). newTask now (targetId t) s deps) plan,
        map (\<lambda>(s, t, deps). newTask now (targetId t) s deps) plan)"
proof (induction plan arbitrary: store)
  case Nil
  show ?case by simp
next
  case (Cons p plan)
  obtain s t deps where p: "p = (s, t, deps)"
    by (cases p)
  with Cons.prems obtain i where t: "t = CreateNew i"
    by (cases t) simp_all
  from Cons.prems have "list_all (\<lambda>(s, t, deps). isCreate t) plan"
    by simp
  from Cons.IH [OF this] show ?case
    by (simp add: p t)
qed

lemma zip_plan_creates:
  "list_all isCreate targets \<Longrightarrow> list_all (\<lambda>(s, t, deps). isCreate t) (zip ss (zip targets ds))"
proof -
  assume a: "list_all isCreate targets"
  have "isCreate t" if "(s, t, d) \<in> set (zip ss (zip targets ds))" for s t d
  proof -
    from that have "(t, d) \<in> set (zip targets ds)" by (rule set_zip_rightD)
    then have "t \<in> set targets" by (rule set_zip_leftD)
    with a show ?thesis by (simp add: list_all_iff)
  qed
  then show ?thesis by (auto simp: list_all_iff)
qed

lemma created_names:
  "length targets = length ss \<Longrightarrow> length ds = length ss \<Longrightarrow>
   map name (map (\<lambda>(s, t, deps). newTask now (targetId t) s deps) (zip ss (zip targets ds)))
     = map sp_name ss"
proof (induction ss arbitrary: targets ds)
  case Nil
  show ?case by simp
next
  case (Cons s ss)
  then obtain t ts d ds' where "targets = t # ts" "ds = d # ds'"
    by (cases targets; cases ds) simp_all
  with Cons show ?case
    by (simp add: newTask_def)
qed

lemma created_pending:
  "list_all (\<lambda>t. status t = PENDING)
     (map (\<lambda>(s, t, deps). newTask now (targetId t) s deps) plan)"
  by (induction plan) (auto simp: newTask_def)

text \<open>A batch appended to a store: on success the store is the old one followed by the new tasks.\<close>

lemma batchCreateOrUpdateTasks_append:
  assumes "batchCreateOrUpdateTasks specs Append g w = (Inr created, wb)"
  shows "tasks wb = tasks w @ created \<and> map name created = map sp_name specs
       \<and> list_all (\<lambda>t. status t = PENDING) created \<and> backups wb = backups w"
proof -
  let ?targets = "planTargets Append (tasks w) (nextId w) specs"
  let ?batch = "zip (map sp_name specs) (map targetId ?targets)"
  obtain deps where deps: "resolveAll (tasks w) ?batch specs = Inr deps"
    using assms
    by (cases "resolveAll (tasks w) ?batch specs")
       (simp_all add: batchCreateOrUpdateTasks_def retainedTasks_def Let_def)
  have pl: "list_all isCreate ?targets" "length ?targets = length specs"
    using planTargets_creates [of Append] by simp_all
  have ld: "length deps = length specs"
    using deps by (rule resolveAll_length)
  let ?new = "map (\<lambda>(s, t, deps). newTask (clock w) (targetId t) s deps) (zip specs (zip ?targets deps))"
  have cb: "commitBatch (clock w) (zip specs (zip ?targets deps)) (tasks w) = (tasks w @ ?new, ?new)"
    by (rule commitBatch_creates) (rule zip_plan_creates [OF pl(1)])
  have "created = ?new" "tasks wb = tasks w @ ?new" "backups wb = backups w"
    using assms deps cb
    by (auto simp: batchCreateOrUpdateTasks_def retainedTasks_def Let_def)
  then show ?thesis
    using created_names [OF pl(2) ld] created_pending by simp
qed

text \<open>
  A reference that names a task of the batch always resolves, so a batch whose
  references all name tasks of the batch is never refused by the reconciler.
\<close>

lemma length_planTargets: "length (planTargets mode existing n ss) = length ss"
  by (induction ss arbitrary: n) (auto split: option.splits)

lemma resolveReference_batch_name:
  "r \<in> fst ` set batch \<Longrightarrow> resolveReference pool batch r \<noteq> None"
  by (auto simp: resolveReference_def map_of_eq_None_iff split: option.splits)

lemma resolveDependencies_total:
  "\<forall>r\<in>set rs. resolveReference pool batch r \<noteq> None \<Longrightarrow>
   \<exists>ids. resolveDependencies pool batch owner rs = Inr ids"
  by (induction rs) (auto split: option.splits sum.splits)

lemma resolveAll_total:
  "\<forall>s\<in>set ss. \<forall>r\<in>set (case sp_dependencies s of None \<Rightarrow> [] | Some rs \<Rightarrow> rs).
      resolveReference pool batch r \<noteq> None \<Longrightarrow>
   \<exists>deps. resolveAll pool batch ss = Inr deps"
proof (induction ss)
  case Nil
  show ?case by simp
next
  case (Cons s ss)
  from Cons.prems obtain ids where
    "resolveDependencies pool batch (sp_name s)
       (case sp_dependencies s of None \<Rightarrow> [] | Some rs \<Rightarrow> rs) = Inr ids"
    using resolveDependencies_total [of "case sp_dependencies s of None \<Rightarrow> [] | Some rs \<Rightarrow> rs"
        pool batch "sp_name s"]
    by auto
  moreover from Cons.prems Cons.IH obtain deps where "resolveAll pool batch ss = Inr deps"
    by auto
  ultimately show ?case by simp
qed

lemma batchCreateOrUpdateTasks_resolves:
  assumes "\<forall>s\<in>set specs. \<forall>r\<in>set (case sp_dependencies s of None \<Rightarrow> [] | Some rs \<Rightarrow> rs).
             r \<in> set (map sp_name specs)"
  shows "\<exists>created. fst (batchCreateOrUpdateTasks specs mode g w) = Inr created"
proof -
  let ?kept = "retainedTasks mode (tasks w)"
  let ?targets = "planTargets mode ?kept (nextId w) specs"
  let ?batch = "zip (map sp_name specs) (map targetId ?targets)"
  have "map fst ?batch = map sp_name specs"
    by (simp add: length_planTargets)
  then have "fst ` set ?batch = set (map sp_name specs)"
    by (metis set_map)
  with assms have "\<forall>s\<in>set specs. \<forall>r\<in>set (case sp_dependencies s of None \<Rightarrow> [] | Some rs \<Rightarrow> rs).
      resolveReference ?kept ?batch r \<noteq> None"
    using resolveReference_batch_name [of _ ?batch ?kept] by blast
  from resolveAll_total [OF this] obtain deps where "resolveAll ?kept ?batch specs = Inr deps" ..
  then show ?thesis
    by (simp add: batchCreateOrUpdateTasks_def Let_def split: prod.splits)
qed

text \<open>
  The outcome of a \<open>clearAllTasks\<close> batch whose snapshot was written, by the outcome of
  the reconciler on the emptied store.
\<close>

lemma applyUpdateMode_clear_success:
  assumes "backupWritable w"
    and "fst (batchCreateOrUpdateTasks specs Append g (snd (modelClearAllTasks w))) = Inr created"
  shows "fst (applyUpdateMode ClearAllTasks specs g w) =
           \<lparr>s_content = SplitPrompt ClearAllTasks created created,
            s_ephemeral = Some \<lparr>success = True,
                                 message = [ClearedWithBackup (clock w),
                                            CreatedAfterClear (length created)],
                                 backupFilePath = Some (clock w)\<rparr>\<rparr>
         \<and> tasks (snd (applyUpdateMode ClearAllTasks specs g w)) = created
         \<and> backups (snd (applyUpdateMode ClearAllTasks specs g w)) = backups w @ [(clock w, tasks w)]
         \<and> map name created = map sp_name specs
         \<and> list_all (\<lambda>t. status t = PENDING) created"
proof -
  let ?wc = "snd (modelClearAllTasks w)"
  note mc = modelClearAllTasks_writable [OF assms(1)]
  obtain r wb where b: "batchCreateOrUpdateTasks specs Append g ?wc = (r, wb)"
    by (cases "batchCreateOrUpdateTasks specs Append g ?wc")
  with assms(2) have r: "r = Inr created" by simp
  from batchCreateOrUpdateTasks_append [of specs g ?wc created wb] b r
  have wb: "tasks wb = created" "backups wb = backups w @ [(clock w, tasks w)]"
    and cr: "map name created = map sp_name specs" "list_all (\<lambda>t. status t = PENDING) created"
    by (simp_all add: mc)
  have b': "batchCreateOrUpdateTasks specs Append g
              (w\<lparr>calls := calls w @ [ModelClearAllTasks],
                 backups := backups w @ [(clock w, tasks w)], tasks := [],
                 clock := Suc (clock w)\<rparr>) = (Inr created, wb)"
    using b r by (simp add: mc)
  have "applyUpdateMode ClearAllTasks specs g w =
      (\<lparr>s_content = SplitPrompt ClearAllTasks created (tasks wb),
        s_ephemeral = Some \<lparr>success = True,
                             message = [ClearedWithBackup (clock w),
                                        CreatedAfterClear (length created)],
                             backupFilePath = Some (clock w)\<rparr>\<rparr>,
       wb\<lparr>calls := calls wb @ [GetAllTasks]\<rparr>)"
    unfolding applyUpdateMode_def by (simp add: mc b' getAllTasks_def)
  then show ?thesis
    using wb cr by simp
qed

text \<open>
  A \<open>clearAllTasks\<close> batch with a snapshot that cannot be written changes nothing; with
  one that is written it ends with the collection, the created tasks and the success of
  an \<open>append\<close> batch on the emptied store.
\<close>

lemma clearAllTasks_append_agreement:
  assumes "distinct (map sp_name ts)"
  shows "(\<not> backupWritable w \<longrightarrow>
            fst (splitTasks ClearAllTasks ts g w)
              = \<lparr>s_content = SplitPrompt ClearAllTasks [] (tasks w),
                 s_ephemeral = Some \<lparr>success = False, message = [ClearFailed],
                                      backupFilePath = None\<rparr>\<rparr>
            \<and> tasks (snd (splitTasks ClearAllTasks ts g w)) = tasks w
            \<and> backups (snd (splitTasks ClearAllTasks ts g w)) = backups w
            \<and> calls (snd (splitTasks ClearAllTasks ts g w))
                = calls w @ [ModelClearAllTasks, GetAllTasks])
       \<and> (backupWritable w \<longrightarrow>
            tasks (snd (modelClearAllTasks w)) = []
            \<and> backups (snd (modelClearAllTasks w)) = backups w @ [(clock w, tasks w)]
            \<and> backups (snd (splitTasks ClearAllTasks ts g w)) = backups w @ [(clock w, tasks w)]
            \<and> tasks (snd (splitTasks ClearAllTasks ts g w))
                = tasks (snd (splitTasks Append ts g (snd (modelClearAllTasks w))))
            \<and> calls (snd (splitTasks ClearAllTasks ts g w))
                = calls w @ [ModelClearAllTasks, BatchCreateOrUpdateTasks ts Append, GetAllTasks]
            \<and> (\<exists>created res resa.
                  s_content (fst (splitTasks ClearAllTasks ts g w))
                    = SplitPrompt ClearAllTasks created (tasks (snd (splitTasks ClearAllTasks ts g w)))
                  \<and> s_content (fst (splitTasks Append ts g (snd (modelClearAllTasks w))))
                    = SplitPrompt Append created (tasks (snd (splitTasks ClearAllTasks ts g w)))
                  \<and> s_ephemeral (fst (splitTasks ClearAllTasks ts g w)) = Some res
                  \<and> s_ephemeral (fst (splitTasks Append ts g (snd (modelClearAllTasks w)))) = Some resa
                  \<and> success res = success resa
                  \<and> backupFilePath res = Some (clock w)
                  \<and> (if success res
                      then tasks (snd (splitTasks ClearAllTasks ts g w)) = created
                           \<and> map name created = map sp_name ts
                           \<and> list_all (\<lambda>t. status t = PENDING) created
                      else tasks (snd (splitTasks ClearAllTasks ts g w)) = [] \<and> created = [])))
       \<and> (tasksSchema ts \<longrightarrow>
            splitTasksRaw ClearAllTasks (JsonTasks ts) g w = splitTasks ClearAllTasks ts g w)"
proof (intro conjI impI)
  have nodup: "\<not> hasDuplicateName {} ts"
    using assms by (simp add: hasDuplicateName_empty)
  have st: "splitTasks m ts g v = applyUpdateMode m ts g v" for m v
    using nodup by (simp add: splitTasks_def map_convertTask)
  {
    assume "tasksSchema ts"
    then show "splitTasksRaw ClearAllTasks (JsonTasks ts) g w = splitTasks ClearAllTasks ts g w"
      using nodup by (simp add: splitTasksRaw_def splitTasks_def)
  }
  {
    assume nw: "\<not> backupWritable w"
    have ap: "applyUpdateMode ClearAllTasks ts g w =
        (\<lparr>s_content = SplitPrompt ClearAllTasks [] (tasks w),
          s_ephemeral = Some \<lparr>success = False, message = [ClearFailed], backupFilePath = None\<rparr>\<rparr>,
         w\<lparr>calls := calls w @ [ModelClearAllTasks, GetAllTasks]\<rparr>)"
      by (simp add: applyUpdateMode_def modelClearAllTasks_unwritable [OF nw] getAllTasks_def)
    show "fst (splitTasks ClearAllTasks ts g w)
              = \<lparr>s_content = SplitPrompt ClearAllTasks [] (tasks w),
                 s_ephemeral = Some \<lparr>success = False, message = [ClearFailed],
                                      backupFilePath = None\<rparr>\<rparr>"
      by (simp add: st ap)
    show "tasks (snd (splitTasks ClearAllTasks ts g w)) = tasks w"
      by (simp add: st ap)
    show "backups (snd (splitTasks ClearAllTasks ts g w)) = backups w"
      by (simp add: st ap)
    show "calls (snd (splitTasks ClearAllTasks ts g w)) = calls w @ [ModelClearAllTasks, GetAllTasks]"
      by (simp add: st ap)
  }
  assume wr: "backupWritable w"
  let ?wc = "snd (modelClearAllTasks w)"
  note mc = modelClearAllTasks_writable [OF wr]
  have wc: "tasks ?wc = []" "backups ?wc = backups w @ [(clock w, tasks w)]"
    "calls ?wc = calls w @ [ModelClearAllTasks]"
    by (simp_all add: mc)
  show "tasks ?wc = []" by (rule wc(1))
  show "backups ?wc = backups w @ [(clock w, tasks w)]" by (rule wc(2))
  obtain out wb where b: "batchCreateOrUpdateTasks ts Append g ?wc = (out, wb)"
    by (cases "batchCreateOrUpdateTasks ts Append g ?wc")
  have cl: "calls wb = calls w @ [ModelClearAllTasks, BatchCreateOrUpdateTasks ts Append]"
    using batchCreateOrUpdateTasks_calls [of ts Append g ?wc] b wc(3) by simp
  have clear: "applyUpdateMode ClearAllTasks ts g w =
      (case out of
         Inr created \<Rightarrow>
           (\<lparr>s_content = SplitPrompt ClearAllTasks created (tasks wb),
             s_ephemeral = Some \<lparr>success = True,
                                  message = [ClearedWithBackup (clock w), CreatedAfterClear (length created)],
                                  backupFilePath = Some (clock w)\<rparr>\<rparr>,
            wb\<lparr>calls := calls wb @ [GetAllTasks]\<rparr>)
       | Inl e \<Rightarrow>
           (\<lparr>s_content = SplitPrompt ClearAllTasks [] (tasks wb),
             s_ephemeral = Some \<lparr>success = False,
                                  message = [ClearedWithBackup (clock w), CreateErrorAfterClear e],
                                  backupFilePath = Some (clock w)\<rparr>\<rparr>,
            wb\<lparr>calls := calls wb @ [GetAllTasks]\<rparr>))"
    using b unfolding applyUpdateMode_def
    by (simp add: mc getAllTasks_def split: sum.splits)
  have app: "applyUpdateMode Append ts g ?wc =
      (case out of
         Inr created \<Rightarrow>
           (\<lparr>s_content = SplitPrompt Append created (tasks wb),
             s_ephemeral = Some \<lparr>success = True, message = [Appended (length created)],
                                  backupFilePath = None\<rparr>\<rparr>,
            wb\<lparr>calls := calls wb @ [GetAllTasks]\<rparr>)
       | Inl e \<Rightarrow>
           (\<lparr>s_content = SplitPrompt Append [] (tasks wb),
             s_ephemeral = Some \<lparr>success = False, message = [CreationFailed e],
                                  backupFilePath = None\<rparr>\<rparr>,
            wb\<lparr>calls := calls wb @ [GetAllTasks]\<rparr>))"
    using b unfolding applyUpdateMode_def
    by (simp add: getAllTasks_def modeMessage_def split: sum.splits)
  have wbfacts: "backups wb = backups w @ [(clock w, tasks w)]
      \<and> (case out of
            Inr created \<Rightarrow> tasks wb = created \<and> map name created = map sp_name ts
                             \<and> list_all (\<lambda>t. status t = PENDING) created
          | Inl e \<Rightarrow> tasks wb = [])"
  proof (cases out)
    case (Inl e)
    with b have "fst (batchCreateOrUpdateTasks ts Append g ?wc) = Inl e" by simp
    from batchCreateOrUpdateTasks_failure [OF this] b Inl wc show ?thesis by auto
  next
    case (Inr created)
    with b have "batchCreateOrUpdateTasks ts Append g ?wc = (Inr created, wb)" by simp
    from batchCreateOrUpdateTasks_append [OF this] Inr wc show ?thesis by simp
  qed
  show "backups (snd (splitTasks ClearAllTasks ts g w)) = backups w @ [(clock w, tasks w)]"
    using wbfacts by (simp add: st clear split: sum.splits)
  show "tasks (snd (splitTasks ClearAllTasks ts g w))
          = tasks (snd (splitTasks Append ts g ?wc))"
    by (simp add: st clear app split: sum.splits)
  show "calls (snd (splitTasks ClearAllTasks ts g w))
          = calls w @ [ModelClearAllTasks, BatchCreateOrUpdateTasks ts Append, GetAllTasks]"
    using cl by (simp add: st clear split: sum.splits)
  show "\<exists>created res resa.
          s_content (fst (splitTasks ClearAllTasks ts g w))
            = SplitPrompt ClearAllTasks created (tasks (snd (splitTasks ClearAllTasks ts g w)))
          \<and> s_content (fst (splitTasks Append ts g ?wc))
            = SplitPrompt Append created (tasks (snd (splitTasks ClearAllTasks ts g w)))
          \<and> s_ephemeral (fst (splitTasks ClearAllTasks ts g w)) = Some res
          \<and> s_ephemeral (fst (splitTasks Append ts g ?wc)) = Some resa
          \<and> success res = success resa
          \<and> backupFilePath res = Some (clock w)
          \<and> (if success res
              then tasks (snd (splitTasks ClearAllTasks ts g w)) = created
                   \<and> map name created = map sp_name ts
                   \<and> list_all (\<lambda>t. status t = PENDING) created
              else tasks (snd (splitTasks ClearAllTasks ts g w)) = [] \<and> created = [])"
    using wbfacts by (cases out) (simp_all add: st clear app)
qed

text \<open>
  C2. A \<open>clearAllTasks\<close> batch (one that has passed the check of the names, which comes
  first in every mode) proceeds in this order. The backup-and-clear step runs first.
  When the snapshot cannot be written, the operation stops there: the result reports a
  failure without a backup handle, the reconciler is never called, and the task
  collection and the backups are as they were. When the snapshot is written, it holds
  the full collection as it was, every task (Completed or not) is discarded, and the
  submitted specifications are then created exactly as \<open>append\<close> mode creates them on
  that emptied store: the same created tasks, the same resulting collection, the same
  success. On success the collection is the created tasks, one per specification, in
  order, all Pending; on failure it is empty. In both cases the handle of the backup is
  in the result. \<open>splitTasksRaw\<close> does the same for a batch that passes \<open>tasksSchema\<close>.
  The outcome is the one of the reconciler on the emptied store: when it returns the
  created tasks, the result reports success with exactly these tasks and they are the
  new collection; when it raises, the result reports the failure with the error and the
  collection is empty. A batch whose dependency references all name tasks of the batch
  (in particular a batch without dependencies) succeeds.
\<close>

theorem clearAllTasks_backup_then_append:
  assumes "distinct (map sp_name ts)"
  shows "(\<not> backupWritable w \<longrightarrow>
            fst (splitTasks ClearAllTasks ts g w)
              = \<lparr>s_content = SplitPrompt ClearAllTasks [] (tasks w),
                 s_ephemeral = Some \<lparr>success = False, message = [ClearFailed],
                                      backupFilePath = None\<rparr>\<rparr>
            \<and> tasks (snd (splitTasks ClearAllTasks ts g w)) = tasks w
            \<and> backups (snd (splitTasks ClearAllTasks ts g w)) = backups w
            \<and> calls (snd (splitTasks ClearAllTasks ts g w))
                = calls w @ [ModelClearAllTasks, GetAllTasks])
       \<and> (backupWritable w \<longrightarrow>
            tasks (snd (modelClearAllTasks w)) = []
            \<and> backups (snd (modelClearAllTasks w)) = backups w @ [(clock w, tasks w)]
            \<and> backups (snd (splitTasks ClearAllTasks ts g w)) = backups w @ [(clock w, tasks w)]
            \<and> tasks (snd (splitTasks ClearAllTasks ts g w))
                = tasks (snd (splitTasks Append ts g (snd (modelClearAllTasks w))))
            \<and> calls (snd (splitTasks ClearAllTasks ts g w))
                = calls w @ [ModelClearAllTasks, BatchCreateOrUpdateTasks ts Append, GetAllTasks]
            \<and> (\<exists>created res resa.
                  s_content (fst (splitTasks ClearAllTasks ts g w))
                    = SplitPrompt ClearAllTasks created (tasks (snd (splitTasks ClearAllTasks ts g w)))
                  \<and> s_content (fst (splitTasks Append ts g (snd (modelClearAllTasks w))))
                    = SplitPrompt Append created (tasks (snd (splitTasks ClearAllTasks ts g w)))
                  \<and> s_ephemeral (fst (splitTasks ClearAllTasks ts g w)) = Some res
                  \<and> s_ephemeral (fst (splitTasks Append ts g (snd (modelClearAllTasks w)))) = Some resa
                  \<and> success res = success resa
                  \<and> backupFilePath res = Some (clock w)
                  \<and> (if success res
                      then tasks (snd (splitTasks ClearAllTasks ts g w)) = created
                           \<and> map name created = map sp_name ts
                           \<and> list_all (\<lambda>t. status t = PENDING) created
                      else tasks (snd (splitTasks ClearAllTasks ts g w)) = [] \<and> created = [])))
       \<and> (tasksSchema ts \<longrightarrow>
            splitTasksRaw ClearAllTasks (JsonTasks ts) g w = splitTasks ClearAllTasks ts g w)
       \<and> (backupWritable w
            \<and> fst (batchCreateOrUpdateTasks ts Append g (snd (modelClearAllTasks w))) = Inr created
          \<longrightarrow>
            fst (splitTasks ClearAllTasks ts g w)
              = \<lparr>s_content = SplitPrompt ClearAllTasks created created,
                 s_ephemeral = Some \<lparr>success = True,
                                      message = [ClearedWithBackup (clock w),
                                                 CreatedAfterClear (length created)],
                                      backupFilePath = Some (clock w)\<rparr>\<rparr>
            \<and> tasks (snd (splitTasks ClearAllTasks ts g w)) = created
            \<and> map name created = map sp_name ts
            \<and> list_all (\<lambda>t. status t = PENDING) created)
       \<and> (backupWritable w
            \<and> fst (batchCreateOrUpdateTasks ts Append g (snd (modelClearAllTasks w))) = Inl e
          \<longrightarrow>
            fst (splitTasks ClearAllTasks ts g w)
              = \<lparr>s_content = SplitPrompt ClearAllTasks [] [],
                 s_ephemeral = Some \<lparr>success = False,
                                      message = [ClearedWithBackup (clock w),
                                                 CreateErrorAfterClear e],
                                      backupFilePath = Some (clock w)\<rparr>\<rparr>
            \<and> tasks (snd (splitTasks ClearAllTasks ts g w)) = [])
       \<and> (backupWritable w
            \<and> (\<forall>s\<in>set ts. \<forall>r\<in>set (case sp_dependencies s of None \<Rightarrow> [] | Some rs \<Rightarrow> rs).
                   r \<in> set (map sp_name ts))
          \<longrightarrow>
            (\<exists>made.
               fst (splitTasks ClearAllTasks ts g w)
                 = \<lparr>s_content = SplitPrompt ClearAllTasks made made,
                    s_ephemeral = Some \<lparr>success = True,
                                         message = [ClearedWithBackup (clock w),
                                                    CreatedAfterClear (length made)],
                                         backupFilePath = Some (clock w)\<rparr>\<rparr>
               \<and> tasks (snd (splitTasks ClearAllTasks ts g w)) = made
               \<and> map name made = map sp_name ts
               \<and> list_all (\<lambda>t. status t = PENDING) made))"
proof -
  have nodup: "\<not> hasDuplicateName {} ts"
    using assms by (simp add: hasDuplicateName_empty)
  have st: "splitTasks ClearAllTasks ts g w = applyUpdateMode ClearAllTasks ts g w"
    using nodup by (simp add: splitTasks_def map_convertTask)
  note agree = clearAllTasks_append_agreement [OF assms, of w g]
  have d: "backupWritable w
            \<and> fst (batchCreateOrUpdateTasks ts Append g (snd (modelClearAllTasks w))) = Inr made
          \<longrightarrow>
            fst (splitTasks ClearAllTasks ts g w)
              = \<lparr>s_content = SplitPrompt ClearAllTasks made made,
                 s_ephemeral = Some \<lparr>success = True,
                                      message = [ClearedWithBackup (clock w),
                                                 CreatedAfterClear (length made)],
                                      backupFilePath = Some (clock w)\<rparr>\<rparr>
            \<and> tasks (snd (splitTasks ClearAllTasks ts g w)) = made
            \<and> map name made = map sp_name ts
            \<and> list_all (\<lambda>t. status t = PENDING) made" for made
  proof
    assume a: "backupWritable w
            \<and> fst (batchCreateOrUpdateTasks ts Append g (snd (modelClearAllTasks w))) = Inr made"
    from applyUpdateMode_clear_success [OF conjunct1 [OF a] conjunct2 [OF a]]
    show "fst (splitTasks ClearAllTasks ts g w)
              = \<lparr>s_content = SplitPrompt ClearAllTasks made made,
                 s_ephemeral = Some \<lparr>success = True,
                                      message = [ClearedWithBackup (clock w),
                                                 CreatedAfterClear (length made)],
                                      backupFilePath = Some (clock w)\<rparr>\<rparr>
            \<and> tasks (snd (splitTasks ClearAllTasks ts g w)) = made
            \<and> map name made = map sp_name ts
            \<and> list_all (\<lambda>t. status t = PENDING) made"
      by (simp add: st)
  qed
  have e: "backupWritable w
            \<and> fst (batchCreateOrUpdateTasks ts Append g (snd (modelClearAllTasks w))) = Inl e
          \<longrightarrow>
            fst (splitTasks ClearAllTasks ts g w)
              = \<lparr>s_content = SplitPrompt ClearAllTasks [] [],
                 s_ephemeral = Some \<lparr>success = False,
                                      message = [ClearedWithBackup (clock w),
                                                 CreateErrorAfterClear e],
                                      backupFilePath = Some (clock w)\<rparr>\<rparr>
            \<and> tasks (snd (splitTasks ClearAllTasks ts g w)) = []"
  proof
    assume a: "backupWritable w
            \<and> fst (batchCreateOrUpdateTasks ts Append g (snd (modelClearAllTasks w))) = Inl e"
    from applyUpdateMode_clear_failure [OF conjunct1 [OF a] conjunct2 [OF a]]
    show "fst (splitTasks ClearAllTasks ts g w)
              = \<lparr>s_content = SplitPrompt ClearAllTasks [] [],
                 s_ephemeral = Some \<lparr>success = False,
                                      message = [ClearedWithBackup (clock w),
                                                 CreateErrorAfterClear e],
                                      backupFilePath = Some (clock w)\<rparr>\<rparr>
            \<and> tasks (snd (splitTasks ClearAllTasks ts g w)) = []"
      by (simp add: st)
  qed
  have f: "backupWritable w
            \<and> (\<forall>s\<in>set ts. \<forall>r\<in>set (case sp_dependencies s of None \<Rightarrow> [] | Some rs \<Rightarrow> rs).
                   r \<in> set (map sp_name ts))
          \<longrightarrow>
            (\<exists>made.
               fst (splitTasks ClearAllTasks ts g w)
                 = \<lparr>s_content = SplitPrompt ClearAllTasks made made,
                    s_ephemeral = Some \<lparr>success = True,
                                         message = [ClearedWithBackup (clock w),
                                                    CreatedAfterClear (length made)],
                                         backupFilePath = Some (clock w)\<rparr>\<rparr>
               \<and> tasks (snd (splitTasks ClearAllTasks ts g w)) = made
               \<and> map name made = map sp_name ts
               \<and> list_all (\<lambda>t. status t = PENDING) made)"
  proof
    assume a: "backupWritable w
            \<and> (\<forall>s\<in>set ts. \<forall>r\<in>set (case sp_dependencies s of None \<Rightarrow> [] | Some rs \<Rightarrow> rs).
                   r \<in> set (map sp_name ts))"
    from batchCreateOrUpdateTasks_resolves [OF conjunct2 [OF a], of Append g "snd (modelClearAllTasks w)"]
    obtain made where
      "fst (batchCreateOrUpdateTasks ts Append g (snd (modelClearAllTasks w))) = Inr made" ..
    with a d [of made] show "\<exists>made.
               fst (splitTasks ClearAllTasks ts g w)
                 = \<lparr>s_content = SplitPrompt ClearAllTasks made made,
                    s_ephemeral = Some \<lparr>success = True,
                                         message = [ClearedWithBackup (clock w),
                                                    CreatedAfterClear (length made)],
                                         backupFilePath = Some (clock w)\<rparr>\<rparr>
               \<and> tasks (snd (splitTasks ClearAllTasks ts g w)) = made
               \<and> map name made = map sp_name ts
               \<and> list_all (\<lambda>t. status t = PENDING) made"
      by blast
  qed
  show ?thesis
    by (intro conjI)
      (rule agree [THEN conjunct1], rule agree [THEN conjunct2, THEN conjunct1],
        rule agree [THEN conjunct2, THEN conjunct2], rule d, rule e, rule f)
qed

text \<open>
  The batch of two tasks on the example store, with a backup medium that can be written
  and with one that cannot; and the batch with the unresolved reference, which is
  reported as a failure after the backup.
\<close>

theorem clearAllTasks_backup_then_append_witness:
  "distinct (map sp_name batchTwo)
   \<and> backupWritable world0
   \<and> backups (snd (splitTasks ClearAllTasks batchTwo None world0)) = [(5, [taskA, taskB])]
   \<and> calls (snd (splitTasks ClearAllTasks batchTwo None world0))
       = [ModelClearAllTasks, BatchCreateOrUpdateTasks batchTwo Append, GetAllTasks]
   \<and> s_ephemeral (fst (splitTasks ClearAllTasks batchTwo None world0))
       = Some \<lparr>success = True, message = [ClearedWithBackup 5, CreatedAfterClear 2],
               backupFilePath = Some 5\<rparr>
   \<and> map name (tasks (snd (splitTasks ClearAllTasks batchTwo None world0))) = [''Build'', ''Test'']
   \<and> map status (tasks (snd (splitTasks ClearAllTasks batchTwo None world0))) = [PENDING, PENDING]
   \<and> s_content (fst (splitTasks ClearAllTasks batchTwo None world0))
       = SplitPrompt ClearAllTasks (tasks (snd (splitTasks ClearAllTasks batchTwo None world0)))
           (tasks (snd (splitTasks ClearAllTasks batchTwo None world0)))
   \<and> \<not> backupWritable (world0\<lparr>backupWritable := False\<rparr>)
   \<and> tasks (snd (splitTasks ClearAllTasks batchTwo None (world0\<lparr>backupWritable := False\<rparr>)))
       = [taskA, taskB]
   \<and> backups (snd (splitTasks ClearAllTasks batchTwo None (world0\<lparr>backupWritable := False\<rparr>))) = []
   \<and> distinct (map sp_name batchGhost)
   \<and> fst (batchCreateOrUpdateTasks batchGhost Append None (snd (modelClearAllTasks world0)))
       = Inl (DependencyError ''Build'' ''Ghost'')
   \<and> fst (splitTasks ClearAllTasks batchGhost None world0)
       = \<lparr>s_content = SplitPrompt ClearAllTasks [] [],
          s_ephemeral = Some \<lparr>success = False,
                               message = [ClearedWithBackup 5,
                                          CreateErrorAfterClear (DependencyError ''Build'' ''Ghost'')],
                               backupFilePath = Some 5\<rparr>\<rparr>
   \<and> tasks (snd (splitTasks ClearAllTasks batchGhost None world0)) = []"
proof -
  have h: "distinct (map sp_name batchTwo)"
    by (simp add: batchTwo_def mkSpec_def)
  have w1: "backupWritable world0"
    by (simp add: world0_def)
  have w2: "\<not> backupWritable (world0\<lparr>backupWritable := False\<rparr>)"
    by simp
  have c: "clock world0 = 5" "tasks world0 = [taskA, taskB]" "backups world0 = []"
    "calls world0 = []"
    by (simp_all add: world0_def)
  have refs: "\<forall>s\<in>set batchTwo. \<forall>r\<in>set (case sp_dependencies s of None \<Rightarrow> [] | Some rs \<Rightarrow> rs).
                r \<in> set (map sp_name batchTwo)"
    by (simp add: batchTwo_def mkSpec_def)
  have names: "map sp_name batchTwo = [''Build'', ''Test'']"
    by (simp add: batchTwo_def mkSpec_def)
  note two = clearAllTasks_backup_then_append [OF h, of world0 None]
  from two w1 refs obtain made where made:
    "fst (splitTasks ClearAllTasks batchTwo None world0)
       = \<lparr>s_content = SplitPrompt ClearAllTasks made made,
          s_ephemeral = Some \<lparr>success = True,
                               message = [ClearedWithBackup (clock world0),
                                          CreatedAfterClear (length made)],
                               backupFilePath = Some (clock world0)\<rparr>\<rparr>"
    "tasks (snd (splitTasks ClearAllTasks batchTwo None world0)) = made"
    "map name made = map sp_name batchTwo"
    "list_all (\<lambda>t. status t = PENDING) made"
    by blast
  from made(3) names obtain a b where ab: "made = [a, b]"
    by (cases made; cases "tl made") auto
  have ok: "s_ephemeral (fst (splitTasks ClearAllTasks batchTwo None world0))
       = Some \<lparr>success = True, message = [ClearedWithBackup 5, CreatedAfterClear 2],
               backupFilePath = Some 5\<rparr>"
    "map name (tasks (snd (splitTasks ClearAllTasks batchTwo None world0))) = [''Build'', ''Test'']"
    "map status (tasks (snd (splitTasks ClearAllTasks batchTwo None world0))) = [PENDING, PENDING]"
    "s_content (fst (splitTasks ClearAllTasks batchTwo None world0))
       = SplitPrompt ClearAllTasks (tasks (snd (splitTasks ClearAllTasks batchTwo None world0)))
           (tasks (snd (splitTasks ClearAllTasks batchTwo None world0)))"
    using made names ab c by simp_all
  have bk: "backups (snd (splitTasks ClearAllTasks batchTwo None world0)) = [(5, [taskA, taskB])]"
    "calls (snd (splitTasks ClearAllTasks batchTwo None world0))
       = [ModelClearAllTasks, BatchCreateOrUpdateTasks batchTwo Append, GetAllTasks]"
    using two w1 c by simp_all
  have un: "tasks (snd (splitTasks ClearAllTasks batchTwo None (world0\<lparr>backupWritable := False\<rparr>)))
       = [taskA, taskB]"
    "backups (snd (splitTasks ClearAllTasks batchTwo None (world0\<lparr>backupWritable := False\<rparr>))) = []"
    using clearAllTasks_backup_then_append [OF h, of "world0\<lparr>backupWritable := False\<rparr>" None]
      w2 c
    by simp_all
  have g: "distinct (map sp_name batchGhost)"
    by (simp add: batchGhost_def mkSpec_def)
  have ge: "fst (batchCreateOrUpdateTasks batchGhost Append None (snd (modelClearAllTasks world0)))
       = Inl (DependencyError ''Build'' ''Ghost'')"
    by (simp add: batchCreateOrUpdateTasks_def modelClearAllTasks_def retainedTasks_def
        resolveReference_def freshId_def batchGhost_def world0_def mkSpec_def)
  have gh: "fst (splitTasks ClearAllTasks batchGhost None world0)
       = \<lparr>s_content = SplitPrompt ClearAllTasks [] [],
          s_ephemeral = Some \<lparr>success = False,
                               message = [ClearedWithBackup 5,
                                          CreateErrorAfterClear (DependencyError ''Build'' ''Ghost'')],
                               backupFilePath = Some 5\<rparr>\<rparr>"
    "tasks (snd (splitTasks ClearAllTasks batchGhost None world0)) = []"
  proof -
    note ghost = clearAllTasks_backup_then_append
      [OF g, of world0 None _ "DependencyError ''Build'' ''Ghost''"]
    from ghost [THEN conjunct2, THEN conjunct2, THEN conjunct2, THEN conjunct2, THEN conjunct1]
      w1 ge
    have "fst (splitTasks ClearAllTasks batchGhost None world0)
            = \<lparr>s_content = SplitPrompt ClearAllTasks [] [],
               s_ephemeral = Some \<lparr>success = False,
                                    message = [ClearedWithBackup (clock world0),
                                               CreateErrorAfterClear (DependencyError ''Build'' ''Ghost'')],
                                    backupFilePath = Some (clock world0)\<rparr>\<rparr>
          \<and> tasks (snd (splitTasks ClearAllTasks batchGhost None world0)) = []"
      by blast
    then show "fst (splitTasks ClearAllTasks batchGhost None world0)
       = \<lparr>s_content = SplitPrompt ClearAllTasks [] [],
          s_ephemeral = Some \<lparr>success = False,
                               message = [ClearedWithBackup 5,
                                          CreateErrorAfterClear (DependencyError ''Build'' ''Ghost'')],
                               backupFilePath = Some 5\<rparr>\<rparr>"
      and "tasks (snd (splitTasks ClearAllTasks batchGhost None world0)) = []"
      by (simp_all add: c)
  qed
  from h w1 bk ok w2 un g ge gh show ?thesis
    by blast
qed

text \<open>The outcome of the same batch on the example store, computed.\<close>

lemma clearAllTasks_example:
  "map name (tasks (snd (splitTasks ClearAllTasks batchTwo None world0))) = [''Build'', ''Test'']
   \<and> map dependencies (tasks (snd (splitTasks ClearAllTasks batchTwo None world0)))
       = [[], [''task-'']]
   \<and> map task_id (tasks (snd (splitTasks ClearAllTasks batchTwo None world0)))
       = [''task-'', ''task-i'']"
  by (simp add: splitTasks_def applyUpdateMode_def modelClearAllTasks_def
      batchCreateOrUpdateTasks_def getAllTasks_def retainedTasks_def resolveReference_def
      convertTask_def freshId_def newTask_def batchTwo_def world0_def mkSpec_def)

text \<open>
  C5. The pair invariant of a related file is not enforced on batch submission. A related
  file with \<open>lineStart = 5\<close> and no \<open>lineEnd\<close> passes \<open>splitTasksSchema\<close> and
  \<open>tasksSchema\<close>; \<open>splitTasks\<close> and \<open>splitTasksRaw\<close> hand it unchanged to the reconciler
  and report success, and the created task carries the file. \<open>updateTaskContent\<close>
  rejects the same file with its line-range validation error.
\<close>

theorem splitTasks_accepts_open_line_range:
  "splitTasksSchema Append batchOpenRange None
   \<and> tasksSchema batchOpenRange
   \<and> lineStart fileOpenRange = Some 5 \<and> lineEnd fileOpenRange = None
   \<and> malformedLineRange fileOpenRange
   \<and> s_ephemeral (fst (splitTasks Append batchOpenRange None world0))
       = Some \<lparr>success = True, message = [Appended 1], backupFilePath = None\<rparr>
   \<and> calls (snd (splitTasks Append batchOpenRange None world0))
       = [BatchCreateOrUpdateTasks batchOpenRange Append, GetAllTasks]
   \<and> map relatedFiles (tasks (snd (splitTasks Append batchOpenRange None world0)))
       = [[], [], [fileOpenRange]]
   \<and> s_ephemeral (fst (splitTasksRaw Append (JsonTasks batchOpenRange) None world0))
       = Some \<lparr>success = True, message = [Appended 1], backupFilePath = None\<rparr>
   \<and> fst (updateTaskContent ''task-a'' None None None (Some [fileOpenRange]) None None None world0)
       = \<lparr>u_content = UpdateValidationError ''task-a'', u_isError = False\<rparr>"
  by (simp add: splitTasksSchema_def tasksSchema_def taskSpecSchema_def relatedFileSchema_def
      malformedLineRange_def splitTasks_def splitTasksRaw_def applyUpdateMode_def
      batchCreateOrUpdateTasks_def getAllTasks_def retainedTasks_def resolveReference_def
      convertTask_def convertFile_def freshId_def newTask_def modeMessage_def
      updateTaskContent_def invalidLineRange_def truthyNum_def
      batchOpenRange_def fileOpenRange_def world0_def taskA_def taskB_def mkSpec_def)

section \<open>Properties of queryTask\<close>

text \<open>The number of pages is the number of results divided by the page size, rounded up.\<close>

lemma ceil_div_bounds:
  fixes n s :: int
  assumes "1 \<le> s"
  shows "n \<le> ((n + s - 1) div s) * s \<and> ((n + s - 1) div s - 1) * s < n"
proof -
  let ?m = "n + s - 1"
  have e: "?m div s * s = ?m - ?m mod s"
    by (simp add: minus_mod_eq_div_mult)
  have r: "0 \<le> ?m mod s" "?m mod s < s"
    using assms by simp_all
  have "n \<le> ?m div s * s"
    using r unfolding e by linarith
  moreover have "(?m div s - 1) * s < n"
    using r unfolding left_diff_distrib e by simp
  ultimately show ?thesis ..
qed

text \<open>
  C8. \<open>queryTaskSchema\<close> rejects a query exactly when the query text is empty, the page
  is below 1, or the page size is below 1 or above 20; the arguments it accepts satisfy
  \<open>page \<ge> 1\<close> and \<open>1 \<le> pageSize \<le> 20\<close>. For accepted arguments \<open>queryTask\<close> answers
  (without an error flag) with the tasks, \<open>totalResults\<close>, \<open>totalPages\<close> and
  \<open>currentPage\<close> of the search result: the tasks are the slice of the matches for the
  page (the \<open>pageSize\<close> matches after the first \<open>(page - 1) * pageSize\<close>), the total is
  the number of matches, the page is the page asked for, and the number of pages is the
  least that holds all matches.
\<close>

theorem queryTask_pagination:
  "(queryTaskSchema query isId page pageSize = None \<longleftrightarrow>
      query = [] \<or> (\<exists>p. page = Some p \<and> p < 1)
      \<or> (\<exists>s. pageSize = Some s \<and> (s < 1 \<or> 20 < s)))
   \<and> (queryTaskSchema query isId page pageSize = Some a \<longrightarrow>
        1 \<le> q_page a \<and> 1 \<le> q_pageSize a \<and> q_pageSize a \<le> 20
        \<and> (\<exists>params.
              queryTaskValidated query isId page pageSize w
                = Some (\<lparr>qr_content = QueryPrompt params, qr_isError = False\<rparr>,
                        w\<lparr>calls := calls w @ [SearchTasksWithCommand query (q_isId a) (q_page a)
                                                  (q_pageSize a)]\<rparr>)
              \<and> (\<exists>results.
                    fst (searchTasksWithCommand query (q_isId a) (q_page a) (q_pageSize a) w)
                      = Inr results
                    \<and> qp_tasks params = sr_tasks results
                    \<and> qp_totalTasks params = totalResults (sr_pagination results)
                    \<and> qp_totalPages params = totalPages (sr_pagination results)
                    \<and> qp_page params = currentPage (sr_pagination results))
              \<and> qp_tasks params
                  = take (nat (q_pageSize a))
                      (drop (nat ((q_page a - 1) * q_pageSize a))
                         (searchMatches query (q_isId a) (tasks w)))
              \<and> qp_totalTasks params = int (length (searchMatches query (q_isId a) (tasks w)))
              \<and> qp_page params = q_page a
              \<and> qp_pageSize params = q_pageSize a
              \<and> qp_totalTasks params \<le> qp_totalPages params * q_pageSize a
              \<and> (qp_totalPages params - 1) * q_pageSize a < qp_totalTasks params))"
proof (intro conjI impI)
  show "queryTaskSchema query isId page pageSize = None \<longleftrightarrow>
      query = [] \<or> (\<exists>p. page = Some p \<and> p < 1)
      \<or> (\<exists>s. pageSize = Some s \<and> (s < 1 \<or> 20 < s))"
    by (cases query; cases page; cases pageSize) (auto simp: queryTaskSchema_def)
next
  assume a: "queryTaskSchema query isId page pageSize = Some a"
  then have q: "q_query a = query" and pg: "1 \<le> q_page a"
    and ps: "1 \<le> q_pageSize a" "q_pageSize a \<le> 20"
    by (auto simp: queryTaskSchema_def split: if_splits option.splits)
  show "1 \<le> q_page a" by (rule pg)
  show "1 \<le> q_pageSize a" by (rule ps(1))
  show "q_pageSize a \<le> 20" by (rule ps(2))
  let ?n = "int (length (searchMatches query (q_isId a) (tasks w)))"
  note cd = ceil_div_bounds [OF ps(1), of ?n]
  show "\<exists>params.
              queryTaskValidated query isId page pageSize w
                = Some (\<lparr>qr_content = QueryPrompt params, qr_isError = False\<rparr>,
                        w\<lparr>calls := calls w @ [SearchTasksWithCommand query (q_isId a) (q_page a)
                                                  (q_pageSize a)]\<rparr>)
              \<and> (\<exists>results.
                    fst (searchTasksWithCommand query (q_isId a) (q_page a) (q_pageSize a) w)
                      = Inr results
                    \<and> qp_tasks params = sr_tasks results
                    \<and> qp_totalTasks params = totalResults (sr_pagination results)
                    \<and> qp_totalPages params = totalPages (sr_pagination results)
                    \<and> qp_page params = currentPage (sr_pagination results))
              \<and> qp_tasks params
                  = take (nat (q_pageSize a))
                      (drop (nat ((q_page a - 1) * q_pageSize a))
                         (searchMatches query (q_isId a) (tasks w)))
              \<and> qp_totalTasks params = int (length (searchMatches query (q_isId a) (tasks w)))
              \<and> qp_page params = q_page a
              \<and> qp_pageSize params = q_pageSize a
              \<and> qp_totalTasks params \<le> qp_totalPages params * q_pageSize a
              \<and> (qp_totalPages params - 1) * q_pageSize a < qp_totalTasks params"
    using cd
    by (simp add: queryTaskValidated_def a q queryTask_def searchTasksWithCommand_def Let_def)
qed

text \<open>
  An id query for the second page of size 1 over the example store, whose two tasks both
  match; and three pairs of pagination parameters that are out of bounds.
\<close>

theorem queryTask_pagination_witness:
  "queryTaskSchema ''task'' (Some True) (Some 2) (Some 1)
     = Some \<lparr>q_query = ''task'', q_isId = True, q_page = 2, q_pageSize = 1\<rparr>
   \<and> queryTaskSchema ''task'' (Some True) (Some 0) (Some 1) = None
   \<and> queryTaskSchema ''task'' (Some True) (Some 1) (Some 21) = None
   \<and> queryTaskSchema ''task'' (Some True) (Some 1) (Some 0) = None
   \<and> (\<exists>params.
         queryTaskValidated ''task'' (Some True) (Some 2) (Some 1) world0
           = Some (\<lparr>qr_content = QueryPrompt params, qr_isError = False\<rparr>,
                   world0\<lparr>calls := calls world0 @ [SearchTasksWithCommand ''task'' True 2 1]\<rparr>)
         \<and> qp_tasks params = [taskB] \<and> qp_totalTasks params = 2 \<and> qp_page params = 2
         \<and> 2 \<le> qp_totalPages params * 1 \<and> (qp_totalPages params - 1) * 1 < 2)"
proof -
  let ?a = "\<lparr>q_query = ''task'', q_isId = True, q_page = 2, q_pageSize = 1\<rparr>"
  have h: "queryTaskSchema ''task'' (Some True) (Some 2) (Some 1) = Some ?a"
    by (simp add: queryTaskSchema_def)
  have m: "searchMatches ''task'' True (tasks world0) = [taskA, taskB]"
    by (simp add: searchMatches_def taskMatches_def world0_def taskA_def taskB_def)
  have r: "queryTaskSchema ''task'' (Some True) (Some 0) (Some 1) = None"
    "queryTaskSchema ''task'' (Some True) (Some 1) (Some 21) = None"
    "queryTaskSchema ''task'' (Some True) (Some 1) (Some 0) = None"
    using queryTask_pagination [of "''task''" "Some True" "Some 0" "Some 1"]
      queryTask_pagination [of "''task''" "Some True" "Some 1" "Some 21"]
      queryTask_pagination [of "''task''" "Some True" "Some 1" "Some 0"]
    by simp_all
  show ?thesis
    using queryTask_pagination [of "''task''" "Some True" "Some 2" "Some 1" ?a world0] h m r
    by auto
qed

end
